theory Spec2Isabelle
  imports Main
begin

section \<open>JavaScript values\<close>

text \<open>
  The handlers of \<^verbatim>\<open>main.pb.js\<close> run inside the PocketBase JavaScript engine. The
  values they handle are parsed JSON bodies, the \<^verbatim>\<open>undefined\<close> that a missing
  property reads as, and error objects. Numbers are integers here (no claim
  depends on a fraction). An object is an association list read with
  \<open>map_of\<close>. A thrown value is a \<open>jsval\<close> as well, as in JavaScript.
\<close>

datatype jsval =
    JUndefined
  | JNull
  | JBool bool
  | JNum int
  | JStr string
  | JArr "jsval list"
  | JObj "(string \<times> jsval) list"
  | JErr string string  \<comment> \<open>an error object: its name and its message\<close>

definition nullish :: "jsval \<Rightarrow> bool" where
  "nullish v = (v = JUndefined \<or> v = JNull)"

text \<open>Reading a property of a value that is neither \<^verbatim>\<open>null\<close> nor \<^verbatim>\<open>undefined\<close>.
  Only the names that the handlers read occur, none of which is a built-in
  property of a string, a number or an array.\<close>

fun js_prop :: "jsval \<Rightarrow> string \<Rightarrow> jsval" where
  "js_prop (JObj kvs) k = (case map_of kvs k of None \<Rightarrow> JUndefined | Some v \<Rightarrow> v)"
| "js_prop (JErr n m) k =
     (if k = ''message'' then JStr m else if k = ''name'' then JStr n else JUndefined)"
| "js_prop v k = JUndefined"

text \<open>\<^verbatim>\<open>v.k\<close>: a TypeError when \<^verbatim>\<open>v\<close> is null or undefined. The message
  names the property; the engine's exact wording is not modelled, and neither
  is the wording of the errors that the host throws.\<close>

definition get_prop :: "jsval \<Rightarrow> string \<Rightarrow> jsval + jsval" where
  "get_prop v k =
     (if nullish v then Inl (JErr ''TypeError'' (''Cannot read property '' @ k))
      else Inr (js_prop v k))"

text \<open>\<^verbatim>\<open>v?.k\<close>: undefined when \<^verbatim>\<open>v\<close> is null or undefined.\<close>

definition opt_chain :: "jsval \<Rightarrow> string \<Rightarrow> jsval" where
  "opt_chain v k = (if nullish v then JUndefined else js_prop v k)"

fun truthy :: "jsval \<Rightarrow> bool" where
  "truthy JUndefined = False"
| "truthy JNull = False"
| "truthy (JBool b) = b"
| "truthy (JNum n) = (n \<noteq> 0)"
| "truthy (JStr s) = (s \<noteq> [])"
| "truthy v = True"

text \<open>\<^verbatim>\<open>a || b\<close>\<close>

definition js_or :: "jsval \<Rightarrow> jsval \<Rightarrow> jsval" where
  "js_or a b = (if truthy a then a else b)"

fun digits :: "nat \<Rightarrow> string" where
  "digits n =
     (if n < 10 then [''0123456789'' ! n]
      else digits (n div 10) @ [''0123456789'' ! (n mod 10)])"

fun join :: "string \<Rightarrow> string list \<Rightarrow> string" where
  "join sep [] = []"
| "join sep [x] = x"
| "join sep (x # y # ys) = x @ sep @ join sep (y # ys)"

text \<open>The string that a template literal \<^verbatim>\<open>`${v}`\<close> or \<^verbatim>\<open>"..." + v\<close> puts in place
  of \<^verbatim>\<open>v\<close>. A number is printed in decimal, as JavaScript prints an integer
  that a double holds exactly; the rounding above \<open>2^53\<close> and the exponent
  notation from \<open>1e21\<close> on are not modelled. The ids of the vendor are
  strings, and no statement below depends on the text of a number.\<close>

fun to_string :: "jsval \<Rightarrow> string" where
  "to_string JUndefined = ''undefined''"
| "to_string JNull = ''null''"
| "to_string (JBool b) = (if b then ''true'' else ''false'')"
| "to_string (JNum n) = (if n < 0 then ''-'' @ digits (nat (- n)) else digits (nat n))"
| "to_string (JStr s) = s"
| "to_string (JArr xs) =
     join '','' (map (\<lambda>x. if x = JUndefined \<or> x = JNull then [] else to_string x) xs)"
| "to_string (JObj kvs) = ''[object Object]''"
| "to_string (JErr n m) = (if m = [] then n else n @ '': '' @ m)"

section \<open>The record store, the effects and the host\<close>

type_synonym fields = "string \<rightharpoonup> jsval"

record row =
  row_id :: nat
  row_fields :: fields

text \<open>A record object in the engine: \<open>rec_id\<close> is \<open>None\<close> for a record made by
  \<^verbatim>\<open>new Record(collection)\<close> that was never saved.\<close>

record pb_record =
  rec_collection :: string
  rec_id :: "nat option"
  rec_fields :: fields

record http_request =
  url :: string
  http_method :: string
  req_headers :: "(string \<times> string) list"
  req_body :: "jsval option"
  timeout :: "nat option"

record http_response =
  status :: int
  json :: jsval

record user =
  user_id :: string
  displayName :: string
  email :: string

text \<open>What a handler does besides returning: every call into the host is
  written to the trace, in order, whether it then succeeds or throws.\<close>

datatype effect =
    DbFind string string       \<comment> \<open>\<^verbatim>\<open>findRecordsByFilter\<close> / \<^verbatim>\<open>findFirstRecordByFilter\<close>: collection, filter\<close>
  | DbFindCollection string    \<comment> \<open>\<^verbatim>\<open>findCollectionByNameOrId\<close>\<close>
  | DbFindAuth                 \<comment> \<open>\<^verbatim>\<open>findAuthRecordByToken\<close>\<close>
  | DbSave string              \<comment> \<open>\<^verbatim>\<open>saveRecord\<close>: collection\<close>
  | HttpSend string string     \<comment> \<open>\<^verbatim>\<open>$http.send\<close>: method, url\<close>
  | LogInfo
  | LogError

record state =
  tables :: "string \<rightharpoonup> row list"
  next_id :: nat
  trace :: "effect list"

text \<open>
  The host runtime and the configuration. None of it is code of the
  repository: the signing secret and the API key are placeholders that the
  file's header tells the user to replace, and the functions belong to
  PocketBase and to the vendor. They are parameters of the model.
  \<^item> \<open>hs256 body key\<close> is \<^verbatim>\<open>$security.hs256\<close>;
  \<^item> \<open>findAuthRecordByToken token\<close> throws (\<open>Inl\<close>) for a token that names no user;
  \<^item> \<open>filter_eval text\<close> is the host's filter language: \<open>None\<close> for a text that
    does not parse, else the predicate on a record's fields;
  \<^item> \<open>validate collection fields\<close> is the validation that \<^verbatim>\<open>saveRecord\<close> runs:
    \<open>Some e\<close> when the record is refused with the error \<open>e\<close>;
  \<^item> \<open>http_send request\<close> is \<^verbatim>\<open>$http.send\<close>: \<open>Inl\<close> for a transport error.
\<close>

record env =
  secret :: string
  apiKey :: string
  hs256 :: "string \<Rightarrow> string \<Rightarrow> string"
  findAuthRecordByToken :: "string \<Rightarrow> jsval + user"
  filter_eval :: "string \<Rightarrow> (fields \<Rightarrow> bool) option"
  validate :: "string \<Rightarrow> fields \<Rightarrow> jsval option"
  http_send :: "http_request \<Rightarrow> jsval + http_response"

record request =
  headers :: "string \<rightharpoonup> string"
  raw_body :: string
  data :: jsval   \<comment> \<open>\<^verbatim>\<open>info.data\<close>, the parsed body\<close>

record response =
  code :: int
  body :: jsval

subsection \<open>Computations that change the state and may throw\<close>

type_synonym 'a js = "state \<Rightarrow> (jsval + 'a) \<times> state"

definition ret :: "'a \<Rightarrow> 'a js" where
  "ret x s = (Inr x, s)"

definition js_throw :: "jsval \<Rightarrow> 'a js" where
  "js_throw e s = (Inl e, s)"

definition js_bind :: "'a js \<Rightarrow> ('a \<Rightarrow> 'b js) \<Rightarrow> 'b js" where
  "js_bind m f s = (case m s of (Inl e, s') \<Rightarrow> (Inl e, s') | (Inr x, s') \<Rightarrow> f x s')"

text \<open>\<^verbatim>\<open>try { m } catch (e) { hdl e }\<close>\<close>

definition try_catch :: "'a js \<Rightarrow> (jsval \<Rightarrow> 'a js) \<Rightarrow> 'a js" where
  "try_catch m hdl s = (case m s of (Inl e, s') \<Rightarrow> hdl e s' | (Inr x, s') \<Rightarrow> (Inr x, s'))"

definition lift :: "jsval + 'a \<Rightarrow> 'a js" where
  "lift r s = (r, s)"

definition emit :: "effect \<Rightarrow> unit js" where
  "emit e s = (Inr (), s\<lparr>trace := trace s @ [e]\<rparr>)"

text \<open>\<^verbatim>\<open>c.json(status, body)\<close>\<close>

definition c_json :: "int \<Rightarrow> jsval \<Rightarrow> response js" where
  "c_json st b = ret \<lparr>code = st, body = b\<rparr>"

subsection \<open>The host's record operations\<close>

definition as_record :: "string \<Rightarrow> row \<Rightarrow> pb_record" where
  "as_record c r = \<lparr>rec_collection = c, rec_id = Some (row_id r), rec_fields = row_fields r\<rparr>"

text \<open>\<^verbatim>\<open>$app.dao().findRecordsByFilter(collection, filter)\<close>: every record of the
  collection that the filter accepts, in the order of the table; it throws
  for an unknown collection and for a filter that does not parse.\<close>

definition findRecordsByFilter :: "env \<Rightarrow> string \<Rightarrow> string \<Rightarrow> pb_record list js" where
  "findRecordsByFilter h c f =
     js_bind (emit (DbFind c f)) (\<lambda>_ s.
       case tables s c of
         None \<Rightarrow> (Inl (JErr ''Error'' ''missing collection''), s)
       | Some rs \<Rightarrow>
           (case filter_eval h f of
              None \<Rightarrow> (Inl (JErr ''Error'' ''invalid filter''), s)
            | Some p \<Rightarrow> (Inr (map (as_record c) (filter (\<lambda>r. p (row_fields r)) rs)), s)))"

text \<open>\<^verbatim>\<open>$app.dao().findFirstRecordByFilter\<close>: the first such record; the host
  throws when there is none, so the result is never \<open>None\<close>. The option type
  keeps the handler's \<^verbatim>\<open>if (!customerRecord)\<close> branch in the model.\<close>

definition findFirstRecordByFilter :: "env \<Rightarrow> string \<Rightarrow> string \<Rightarrow> pb_record option js" where
  "findFirstRecordByFilter h c f =
     js_bind (findRecordsByFilter h c f) (\<lambda>rs.
       case rs of
         [] \<Rightarrow> js_throw (JErr ''Error'' ''sql: no rows in result set'')
       | r # _ \<Rightarrow> ret (Some r))"

definition findCollectionByNameOrId :: "string \<Rightarrow> string js" where
  "findCollectionByNameOrId c =
     js_bind (emit (DbFindCollection c)) (\<lambda>_ s.
       case tables s c of
         None \<Rightarrow> (Inl (JErr ''Error'' ''missing collection''), s)
       | Some rs \<Rightarrow> (Inr c, s))"

text \<open>\<^verbatim>\<open>new Record(collection)\<close>\<close>

definition new_Record :: "string \<Rightarrow> pb_record" where
  "new_Record c = \<lparr>rec_collection = c, rec_id = None, rec_fields = Map.empty\<rparr>"

text \<open>\<^verbatim>\<open>record.load(data)\<close>: the fields named in \<^verbatim>\<open>data\<close> are overwritten, the
  others are kept.\<close>

definition load :: "pb_record \<Rightarrow> (string \<times> jsval) list \<Rightarrow> pb_record" where
  "load r d = r\<lparr>rec_fields := rec_fields r ++ map_of d\<rparr>"

text \<open>\<^verbatim>\<open>$app.dao().saveRecord(record)\<close>: a record that was never saved is
  inserted under a fresh id, a record that came from the store replaces the
  row of its id. Nothing is written when the host refuses the record.\<close>

definition saveRecord :: "env \<Rightarrow> pb_record \<Rightarrow> unit js" where
  "saveRecord h r =
     js_bind (emit (DbSave (rec_collection r))) (\<lambda>_ s.
       case tables s (rec_collection r) of
         None \<Rightarrow> (Inl (JErr ''Error'' ''missing collection''), s)
       | Some rs \<Rightarrow>
           (case validate h (rec_collection r) (rec_fields r) of
              Some e \<Rightarrow> (Inl e, s)
            | None \<Rightarrow>
                (case rec_id r of
                   None \<Rightarrow>
                     (Inr (), s\<lparr>tables := (tables s)(rec_collection r \<mapsto>
                                   rs @ [\<lparr>row_id = next_id s, row_fields = rec_fields r\<rparr>]),
                                next_id := Suc (next_id s)\<rparr>)
                 | Some i \<Rightarrow>
                     (Inr (), s\<lparr>tables := (tables s)(rec_collection r \<mapsto>
                                   map (\<lambda>x. if row_id x = i
                                            then x\<lparr>row_fields := rec_fields r\<rparr> else x) rs)\<rparr>))))"

text \<open>\<^verbatim>\<open>record.getString(name)\<close>: the field cast to a string, empty when unset.\<close>

definition getString :: "pb_record \<Rightarrow> string \<Rightarrow> string" where
  "getString r k =
     (case rec_fields r k of
        None \<Rightarrow> []
      | Some v \<Rightarrow> if nullish v then [] else to_string v)"

text \<open>\<^verbatim>\<open>record.get(name)\<close>\<close>

definition get_field :: "pb_record \<Rightarrow> string \<Rightarrow> jsval" where
  "get_field r k = (case rec_fields r k of None \<Rightarrow> JNull | Some v \<Rightarrow> v)"

text \<open>\<^verbatim>\<open>$http.send(request)\<close>\<close>

definition send :: "env \<Rightarrow> http_request \<Rightarrow> http_response js" where
  "send h rq = js_bind (emit (HttpSend (http_method rq) (url rq))) (\<lambda>_. lift (http_send h rq))"

text \<open>\<^verbatim>\<open>info.headers[name]\<close>\<close>

definition header :: "request \<Rightarrow> string \<Rightarrow> jsval" where
  "header rq k = (case headers rq k of None \<Rightarrow> JUndefined | Some v \<Rightarrow> JStr v)"

text \<open>\<^verbatim>\<open>$app.dao().findAuthRecordByToken(token, secret)\<close>\<close>

definition auth :: "env \<Rightarrow> string \<Rightarrow> user js" where
  "auth h token = js_bind (emit DbFindAuth) (\<lambda>_. lift (findAuthRecordByToken h token))"

section \<open>The upsert that every handler repeats\<close>

text \<open>The filter text \<^verbatim>\<open>`key = "${v}"`\<close>.\<close>

definition eq_filter :: "string \<Rightarrow> string \<Rightarrow> string" where
  "eq_filter key v = key @ '' = '' @ [CHR 0x22] @ v @ [CHR 0x22]"

text \<open>
  The webhook handler (lines 64-95) and the three loops of the
  synchronization (lines 447-478, 500-528, 550-573) hold the same statements
  with another collection, key field and field table: find the records whose
  key field is the item's \<^verbatim>\<open>id\<close>, build the field table, then load it into the
  first record found, or into a new record when none was found, and save.
\<close>

definition upsert ::
  "env \<Rightarrow> string \<Rightarrow> string \<Rightarrow> (jsval \<Rightarrow> jsval + (string \<times> jsval) list) \<Rightarrow> jsval \<Rightarrow> unit js"
  where
  "upsert h coll key build item =
     js_bind (lift (get_prop item ''id'')) (\<lambda>item_id.
     js_bind (findRecordsByFilter h coll (eq_filter key (to_string item_id))) (\<lambda>existing.
     js_bind (lift (build item)) (\<lambda>d.
       case existing of
         r # _ \<Rightarrow> saveRecord h (load r d)
       | [] \<Rightarrow>
           js_bind (findCollectionByNameOrId coll) (\<lambda>collection.
             saveRecord h (load (new_Record collection) d)))))"

text \<open>The \<^verbatim>\<open>catch (err)\<close> around each upsert: log, then
  \<^verbatim>\<open>throw new BadRequestError(label + err.message)\<close>.\<close>

definition rethrow :: "string \<Rightarrow> unit js \<Rightarrow> unit js" where
  "rethrow label m =
     try_catch m (\<lambda>err.
       js_bind (emit LogError) (\<lambda>_.
       js_bind (lift (get_prop err ''message'')) (\<lambda>msg.
         js_throw (JErr ''BadRequestError'' (label @ to_string msg)))))"

text \<open>An expression that reads properties changes no state but may throw;
  \<open>then_read\<close> chains two of them.\<close>

definition then_read :: "jsval + 'a \<Rightarrow> ('a \<Rightarrow> jsval + 'b) \<Rightarrow> jsval + 'b" where
  "then_read r f = (case r of Inl e \<Rightarrow> Inl e | Inr x \<Rightarrow> f x)"

text \<open>\<^verbatim>\<open>subscriptionData\<close>, lines 69-84 and again lines 452-467.\<close>

definition subscriptionData :: "jsval \<Rightarrow> jsval + (string \<times> jsval) list" where
  "subscriptionData subscription =
     then_read (get_prop subscription ''id'') (\<lambda>sid.
     then_read (get_prop subscription ''attributes'') (\<lambda>attributes.
       Inr [(''subscription_id'', sid),
            (''lemonsqueezy_customer_id'', js_or (opt_chain attributes ''customer_id'') (JStr [])),
            (''status'', js_or (opt_chain attributes ''status'') (JStr [])),
            (''variant_id'', js_or (opt_chain attributes ''variant_id'') (JStr [])),
            (''quantity'',
               js_or (opt_chain (opt_chain attributes ''first_subscription_item'') ''quantity'')
                 (JNum 0)),
            (''metadata'', JStr ''{}''),
            (''cancel_at_period_end'', js_or (opt_chain attributes ''cancelled'') (JBool False)),
            (''current_period_start'', js_or (opt_chain attributes ''created_at'') (JStr [])),
            (''current_period_end'', js_or (opt_chain attributes ''renews_at'') (JStr [])),
            (''ended_at'', js_or (opt_chain attributes ''ends_at'') (JStr [])),
            (''cancel_at'', JStr []),
            (''canceled_at'', JStr []),
            (''trial_start'', JStr []),
            (''trial_end'', js_or (opt_chain attributes ''trial_ends_at'') (JStr []))]))"

text \<open>\<^verbatim>\<open>variantData\<close>, lines 505-517. Here the attributes are read without
  \<^verbatim>\<open>?.\<close>, so a variant without attributes throws.\<close>

definition variantData :: "jsval \<Rightarrow> jsval + (string \<times> jsval) list" where
  "variantData variant =
     then_read (get_prop variant ''id'') (\<lambda>vid.
     then_read (get_prop variant ''attributes'') (\<lambda>attributes.
     then_read (get_prop attributes ''product_id'') (\<lambda>product_id.
       Inr [(''variant_id'', vid),
            (''product_id'', product_id),
            (''active'', JBool (js_prop attributes ''status'' = JStr ''published'')),
            (''description'', js_prop attributes ''description''),
            (''currency'', JStr ''USD''),
            (''unit_amount'', js_prop attributes ''price''),
            (''type'',
               if truthy (js_prop attributes ''is_subscription'')
               then JStr ''subscription'' else JStr ''one-time''),
            (''interval'', js_prop attributes ''interval''),
            (''interval_count'', js_prop attributes ''interval_count''),
            (''trial_period_days'',
               if truthy (js_prop attributes ''has_free_trial'')
               then js_prop attributes ''trial_interval_count'' else JNum 0),
            (''metadata'', JStr ''{}'')])))"

text \<open>\<^verbatim>\<open>productData\<close>, lines 555-562.\<close>

definition productData :: "jsval \<Rightarrow> jsval + (string \<times> jsval) list" where
  "productData product =
     then_read (get_prop product ''id'') (\<lambda>pid.
     then_read (get_prop product ''attributes'') (\<lambda>attributes.
     then_read (get_prop attributes ''status'') (\<lambda>status.
       Inr [(''product_id'', pid),
            (''active'', JBool (status = JStr ''published'')),
            (''name'', js_prop attributes ''name''),
            (''description'', js_prop attributes ''description''),
            (''image'', js_prop attributes ''thumb_url''),
            (''metadata'', JStr ''{}'')])))"

section \<open>POST /lemonsqueezy\<close>

definition subscription_events :: "jsval list" where
  "subscription_events =
     [JStr ''subscription_created'', JStr ''subscription_cancelled'',
      JStr ''subscription_updated'']"

text \<open>
  Lines 42-105. \<^verbatim>\<open>$security.equal\<close> compares two strings in constant time; its
  result is their equality. The event name is read once for the log line of
  line 56, before the \<^verbatim>\<open>switch\<close>, so a body without \<^verbatim>\<open>meta\<close> throws there. The
  three \<^verbatim>\<open>case\<close> labels share one body, which is the upsert inside its
  \<^verbatim>\<open>try\<close>.
\<close>

definition webhook :: "env \<Rightarrow> request \<Rightarrow> response js" where
  "webhook h rq =
     (let signature = to_string (js_or (header rq ''x_signature'') (JStr []));
          hash = hs256 h (raw_body rq) (secret h);
          isValid = (hash = signature)
      in if \<not> isValid then js_throw (JErr ''BadRequestError'' ''Invalid webhook signature.'')
         else
           js_bind (lift (get_prop (data rq) ''meta'')) (\<lambda>meta.
           js_bind (lift (get_prop meta ''event_name'')) (\<lambda>event_name.
           js_bind (emit LogInfo) (\<lambda>_.
           js_bind
             (if event_name \<in> set subscription_events
              then rethrow ''Failed to process subscription: ''
                     (js_bind (lift (get_prop (data rq) ''data'')) (\<lambda>subscription.
                        upsert h ''subscription'' ''subscription_id'' subscriptionData
                          subscription))
              else ret ()) (\<lambda>_.
           c_json 200 (JObj [(''message'', JStr ''Data received successfully'')]))))))"

section \<open>POST /create-checkout-session\<close>

text \<open>\<^verbatim>\<open>info.headers["authorization"] || ''\<close>, in this handler and in the next.\<close>

definition auth_token :: "request \<Rightarrow> string" where
  "auth_token rq = to_string (js_or (header rq ''authorization'') (JStr []))"

definition api_headers :: "env \<Rightarrow> (string \<times> string) list" where
  "api_headers h =
     [(''Accept'', ''application/vnd.api+json''),
      (''Content-Type'', ''application/vnd.api+json''),
      (''Authorization'', ''Bearer '' @ apiKey h)]"

definition store_relationship :: "string \<times> jsval" where
  "store_relationship =
     (''store'', JObj [(''data'', JObj [(''type'', JStr ''stores''), (''id'', JStr ''116661'')])])"

text \<open>The request bodies are the values handed to \<^verbatim>\<open>JSON.stringify\<close>.\<close>

definition customer_request :: "env \<Rightarrow> user \<Rightarrow> http_request" where
  "customer_request h userRecord =
     \<lparr>url = ''https://api.lemonsqueezy.com/v1/customers'',
      http_method = ''POST'',
      req_headers = api_headers h,
      req_body = Some (JObj [(''data'', JObj
        [(''type'', JStr ''customers''),
         (''attributes'', JObj [(''name'', JStr (displayName userRecord)),
                                (''email'', JStr (email userRecord))]),
         (''relationships'', JObj [store_relationship])])]),
      timeout = None\<rparr>"

definition checkout_request :: "env \<Rightarrow> user \<Rightarrow> jsval \<Rightarrow> http_request" where
  "checkout_request h userRecord variant_id =
     \<lparr>url = ''https://api.lemonsqueezy.com/v1/checkouts'',
      http_method = ''POST'',
      req_headers = api_headers h,
      req_body = Some (JObj [(''data'', JObj
        [(''type'', JStr ''checkouts''),
         (''attributes'', JObj
            [(''checkout_options'', JObj [(''button_color'', JStr ''#7047EB'')]),
             (''checkout_data'', JObj
                [(''name'', JStr (displayName userRecord)),
                 (''email'', JStr (email userRecord)),
                 (''custom'', JObj [(''user_id'', JStr (user_id userRecord))])]),
             (''preview'', JBool True)]),
         (''relationships'', JObj
            [(''variant'', JObj [(''data'', JObj [(''type'', JStr ''variants''),
                                                  (''id'', variant_id)])]),
             store_relationship])])]),
      timeout = None\<rparr>"

text \<open>Lines 120-170: the customer id of the caller, from the store or from
  the vendor. The vendor call and the save stand outside every
  \<^verbatim>\<open>try\<close>.\<close>

definition resolve_customer :: "env \<Rightarrow> user \<Rightarrow> jsval js" where
  "resolve_customer h userRecord =
     js_bind (findRecordsByFilter h ''customer'' (eq_filter ''user_id'' (user_id userRecord)))
       (\<lambda>existingCustomer.
          case existingCustomer of
            r # _ \<Rightarrow> ret (JStr (getString r ''lemonsqueezy_customer_id''))
          | [] \<Rightarrow>
              js_bind (send h (customer_request h userRecord)) (\<lambda>customerResponse.
              js_bind (lift (get_prop (json customerResponse) ''data'')) (\<lambda>customerData.
              js_bind (lift (get_prop customerData ''id'')) (\<lambda>lemonsqueezyCustomerId.
              js_bind (findCollectionByNameOrId ''customer'') (\<lambda>collection.
              js_bind (saveRecord h (load (new_Record collection)
                         [(''lemonsqueezy_customer_id'', lemonsqueezyCustomerId),
                          (''user_id'', JStr (user_id userRecord))])) (\<lambda>_.
                ret lemonsqueezyCustomerId))))))"

text \<open>Lines 174-224: the checkout request and its \<^verbatim>\<open>try\<close>. The request body
  is built before the \<^verbatim>\<open>try\<close>, so reading \<^verbatim>\<open>info.data.variant_id\<close> is not
  guarded.\<close>

definition forward_checkout :: "env \<Rightarrow> request \<Rightarrow> user \<Rightarrow> response js" where
  "forward_checkout h rq userRecord =
     js_bind (lift (get_prop (data rq) ''variant_id'')) (\<lambda>variant_id.
       try_catch
         (js_bind (send h (checkout_request h userRecord variant_id)) (\<lambda>response.
            c_json (status response) (json response)))
         (\<lambda>error.
            js_bind (emit LogError) (\<lambda>_.
              c_json 400 (JObj [(''message'', JStr ''Failed to create checkout'')]))))"

definition create_checkout_session :: "env \<Rightarrow> request \<Rightarrow> response js" where
  "create_checkout_session h rq =
     js_bind (try_catch (js_bind (auth h (auth_token rq)) (\<lambda>u. ret (Some u)))
                (\<lambda>error. ret None))
       (\<lambda>found.
          case found of
            None \<Rightarrow> c_json 400 (JObj [(''message'', JStr ''User not authorized'')])
          | Some userRecord \<Rightarrow>
              js_bind (resolve_customer h userRecord) (\<lambda>lemonsqueezyCustomerId.
                forward_checkout h rq userRecord))"

section \<open>GET /create-portal-link\<close>

definition portal_request :: "env \<Rightarrow> jsval \<Rightarrow> http_request" where
  "portal_request h customer_id =
     \<lparr>url = ''https://api.lemonsqueezy.com/v1/customers/'' @ to_string customer_id,
      http_method = ''GET'',
      req_headers = api_headers h,
      req_body = None,
      timeout = None\<rparr>"

text \<open>Lines 227-261: the whole body stands in one \<^verbatim>\<open>try\<close>, the authentication
  included.\<close>

definition create_portal_link :: "env \<Rightarrow> request \<Rightarrow> response js" where
  "create_portal_link h rq =
     (try_catch
        (js_bind (auth h (auth_token rq)) (\<lambda>userRecord.
         js_bind (findFirstRecordByFilter h ''customer''
                    (eq_filter ''user_id'' (user_id userRecord))) (\<lambda>customerRecord.
           case customerRecord of
             None \<Rightarrow> c_json 404 (JObj [(''message'', JStr ''Customer not found'')])
           | Some r \<Rightarrow>
               js_bind (send h (portal_request h (get_field r ''lemonsqueezy_customer_id'')))
                 (\<lambda>response.
               js_bind (lift (get_prop (json response) ''data'')) (\<lambda>d.
               js_bind (lift (get_prop d ''attributes'')) (\<lambda>attributes.
               js_bind (lift (get_prop attributes ''urls'')) (\<lambda>urls.
               js_bind (lift (get_prop urls ''customer_portal'')) (\<lambda>customerPortalLink.
                 c_json (status response)
                   (JObj [(''customer_portal_link'', customerPortalLink)])))))))))
        (\<lambda>error.
           js_bind (emit LogError) (\<lambda>_.
             c_json 400 (JObj [(''message'', JStr ''Failed to retrieve customer portal link'')]))))"

section \<open>GET /manual-lemonsqueezy-synchronization\<close>

text \<open>\<^verbatim>\<open>items.forEach(f)\<close> on an array: an exception thrown by \<^verbatim>\<open>f\<close> leaves
  the loop.\<close>

fun forEach :: "('a \<Rightarrow> unit js) \<Rightarrow> 'a list \<Rightarrow> unit js" where
  "forEach f [] s = (Inr (), s)"
| "forEach f (x # xs) s =
     (case f x s of (Inl e, s') \<Rightarrow> (Inl e, s') | (Inr u, s') \<Rightarrow> forEach f xs s')"

text \<open>\<^verbatim>\<open>v.forEach(f)\<close> for any value \<^verbatim>\<open>v\<close>: only an array has the method.\<close>

definition for_each_of :: "jsval \<Rightarrow> (jsval \<Rightarrow> unit js) \<Rightarrow> unit js" where
  "for_each_of v f =
     (case v of
        JArr xs \<Rightarrow> forEach f xs
      | _ \<Rightarrow>
          if nullish v then lift (Inl (JErr ''TypeError'' (''Cannot read property forEach'')))
          else js_throw (JErr ''TypeError'' ''forEach is not a function''))"

definition sync_request :: "env \<Rightarrow> string \<Rightarrow> http_request" where
  "sync_request h u =
     \<lparr>url = u, http_method = ''GET'', req_headers = api_headers h, req_body = None,
      timeout = Some 120\<rparr>"

text \<open>One of the three stages: fetch the list, then upsert each item of its
  \<^verbatim>\<open>data\<close> array.\<close>

definition sync_stage ::
  "env \<Rightarrow> string \<Rightarrow> string \<Rightarrow> string \<Rightarrow> (jsval \<Rightarrow> jsval + (string \<times> jsval) list) \<Rightarrow> string
     \<Rightarrow> unit js"
  where
  "sync_stage h u coll key build label =
     js_bind (send h (sync_request h u)) (\<lambda>res.
     js_bind (lift (get_prop (json res) ''data'')) (\<lambda>items.
       for_each_of items (\<lambda>item. rethrow label (upsert h coll key build item))))"

definition subscriptions_url :: string where
  "subscriptions_url = ''https://api.lemonsqueezy.com/v1/subscriptions''"

definition variants_url :: string where
  "variants_url = ''https://api.lemonsqueezy.com/v1/variants''"

definition products_url :: string where
  "products_url = ''https://api.lemonsqueezy.com/v1/products''"

definition sync_subscriptions :: "env \<Rightarrow> unit js" where
  "sync_subscriptions h =
     sync_stage h subscriptions_url ''subscription'' ''subscription_id'' subscriptionData
       ''Failed to process subscription: ''"

definition sync_variants :: "env \<Rightarrow> unit js" where
  "sync_variants h =
     sync_stage h variants_url ''variant'' ''variant_id'' variantData
       ''Failed to process variant: ''"

definition sync_products :: "env \<Rightarrow> unit js" where
  "sync_products h =
     sync_stage h products_url ''product'' ''product_id'' productData
       ''Failed to process product: ''"

text \<open>Lines 428-586: the three stages in one \<^verbatim>\<open>try\<close>; the \<^verbatim>\<open>catch\<close> answers 400
  with the caught value as the message.\<close>

definition manual_sync :: "env \<Rightarrow> response js" where
  "manual_sync h =
     try_catch
       (js_bind (sync_subscriptions h) (\<lambda>_.
        js_bind (sync_variants h) (\<lambda>_.
        js_bind (sync_products h) (\<lambda>_.
        js_bind (emit LogInfo) (\<lambda>_.
          c_json 200 (JObj [(''message'', JStr ''success'')]))))))
       (\<lambda>error.
          js_bind (emit LogError) (\<lambda>_. c_json 400 (JObj [(''message'', error)])))"

section \<open>Notions that the statements use\<close>

text \<open>The rows of collection \<open>c\<close> whose field \<open>k\<close> holds \<open>v\<close>.\<close>

definition rows_with :: "string \<Rightarrow> string \<Rightarrow> jsval \<Rightarrow> state \<Rightarrow> row list" where
  "rows_with c k v s =
     (case tables s c of
        None \<Rightarrow> []
      | Some rs \<Rightarrow> filter (\<lambda>r. row_fields r k = Some v) rs)"

definition table_size :: "string \<Rightarrow> state \<Rightarrow> nat" where
  "table_size c s = (case tables s c of None \<Rightarrow> 0 | Some rs \<Rightarrow> length rs)"

text \<open>The host reads the filter text \<^verbatim>\<open>key = "v"\<close> as the comparison of the field
  \<open>key\<close> with the string \<open>v\<close>. PocketBase does so for a \<open>v\<close> without quote or
  backslash; the statements that depend on it assume it of the one \<open>v\<close> they
  are about.\<close>

definition host_filter_eq :: "env \<Rightarrow> string \<Rightarrow> string \<Rightarrow> bool" where
  "host_filter_eq h key v =
     (filter_eval h (eq_filter key v) = Some (\<lambda>flds. flds key = Some (JStr v)))"

text \<open>The store's primary key: the row ids of a collection are distinct and
  older than the next id.\<close>

definition ids_ok :: "string \<Rightarrow> state \<Rightarrow> bool" where
  "ids_ok c s =
     (case tables s c of
        None \<Rightarrow> True
      | Some rs \<Rightarrow> distinct (map row_id rs) \<and> (\<forall>r \<in> set rs. row_id r < next_id s))"

text \<open>The table that an upsert leaves: the first row that the filter accepts
  takes the field table, or a new row is appended.\<close>

definition upserted ::
  "(fields \<Rightarrow> bool) \<Rightarrow> (string \<times> jsval) list \<Rightarrow> nat \<Rightarrow> row list \<Rightarrow> row list" where
  "upserted p d fresh rs =
     (case filter (\<lambda>r. p (row_fields r)) rs of
        [] \<Rightarrow> rs @ [\<lparr>row_id = fresh, row_fields = map_of d\<rparr>]
      | r # _ \<Rightarrow> map (\<lambda>x. if row_id x = row_id r
                          then x\<lparr>row_fields := row_fields r ++ map_of d\<rparr> else x) rs)"

definition fixed_fields :: "fields \<Rightarrow> bool" where
  "fixed_fields f =
     (f ''metadata'' = Some (JStr ''{}'') \<and> f ''cancel_at'' = Some (JStr []) \<and>
      f ''canceled_at'' = Some (JStr []) \<and> f ''trial_start'' = Some (JStr []))"

text \<open>The vendor calls that create a customer, as the trace records them.\<close>

definition customer_calls :: "state \<Rightarrow> nat" where
  "customer_calls s =
     length (filter (\<lambda>e. e = HttpSend ''POST'' ''https://api.lemonsqueezy.com/v1/customers'')
               (trace s))"

text \<open>What the \<^verbatim>\<open>catch\<close> around an upsert throws for the caught value \<open>err\<close>.\<close>

definition rethrown :: "string \<Rightarrow> jsval \<Rightarrow> jsval" where
  "rethrown label err =
     (case get_prop err ''message'' of
        Inl e \<Rightarrow> e
      | Inr msg \<Rightarrow> JErr ''BadRequestError'' (label @ to_string msg))"

text \<open>The computation \<open>m\<close> leaves the table of collection \<open>c\<close> as it was.\<close>

definition keeps :: "string \<Rightarrow> 'a js \<Rightarrow> bool" where
  "keeps c m = (\<forall>s. tables (snd (m s)) c = tables s c)"

text \<open>The customer record that lines 163-169 save.\<close>

definition customer_row :: "nat \<Rightarrow> jsval \<Rightarrow> user \<Rightarrow> row" where
  "customer_row n cid u =
     \<lparr>row_id = n,
      row_fields = map_of [(''lemonsqueezy_customer_id'', cid), (''user_id'', JStr (user_id u))]\<rparr>"

text \<open>The field table that an upsert hands to \<^verbatim>\<open>saveRecord\<close>: the fields of the
  first record found with the new values loaded over them, or the new values
  alone.\<close>

definition saved_fields :: "(fields \<Rightarrow> bool) \<Rightarrow> (string \<times> jsval) list \<Rightarrow> row list \<Rightarrow> fields" where
  "saved_fields p d rs =
     (case filter (\<lambda>r. p (row_fields r)) rs of
        [] \<Rightarrow> map_of d
      | z # _ \<Rightarrow> row_fields z ++ map_of d)"

section \<open>An example host, example requests and stores\<close>

text \<open>The example host signs with the secret of \<^verbatim>\<open>main.pb.js\<close>; its digests of the
  two example bodies are their HMAC-SHA256 under that secret.\<close>

definition created_body :: string where
  \<open>created_body = ''{"meta":{"event_name":"subscription_created"},"data":{"id":"1","attributes":{"customer_id":7,"status":"active"}}}''\<close>

definition order_body :: string where
  \<open>order_body = ''{"meta":{"event_name":"order_created"},"data":{"id":"9"}}''\<close>

definition created_data :: jsval where
  "created_data =
     JObj [(''meta'', JObj [(''event_name'', JStr ''subscription_created'')]),
           (''data'', JObj [(''id'', JStr ''1''),
                            (''attributes'', JObj [(''customer_id'', JNum 7),
                                                   (''status'', JStr ''active'')])])]"

definition order_data :: jsval where
  "order_data =
     JObj [(''meta'', JObj [(''event_name'', JStr ''order_created'')]),
           (''data'', JObj [(''id'', JStr ''9'')])]"

definition example_hs256 :: "string \<Rightarrow> string \<Rightarrow> string" where
  "example_hs256 b k =
     (if k = ''hello_world'' \<and> b = created_body
      then ''df6054308873b176749f2ff23252b278a3b56d4c1d6999dd3be651685eb24b9e''
      else if k = ''hello_world'' \<and> b = order_body
      then ''21adf9cccf1179938853a3064f6b58d16549deba882993a44644723b3aa4c710''
      else replicate 64 (CHR ''0''))"

definition example_auth :: "string \<Rightarrow> jsval + user" where
  "example_auth token =
     (if token = ''token-of-u1''
      then Inr \<lparr>user_id = ''u1'', displayName = ''Ada'', email = ''ada@example.org''\<rparr>
      else Inl (JErr ''Error'' ''invalid token''))"

definition example_filter :: "string \<Rightarrow> (fields \<Rightarrow> bool) option" where
  "example_filter text =
     (let key = takeWhile (\<lambda>c. c \<noteq> CHR '' '') text;
          rest = drop (length key) text
      in if take 4 rest = '' = '' @ [CHR 0x22] \<and> 5 \<le> length rest \<and> last rest = CHR 0x22
         then Some (\<lambda>flds. flds key = Some (JStr (butlast (drop 4 rest))))
         else None)"

definition example_env :: "(http_request \<Rightarrow> jsval + http_response) \<Rightarrow> env" where
  "example_env vendor =
     \<lparr>secret = ''hello_world'', apiKey = ''test-api-key'', hs256 = example_hs256,
      findAuthRecordByToken = example_auth, filter_eval = example_filter,
      validate = (\<lambda>c f. None), http_send = vendor\<rparr>"

definition no_vendor :: "http_request \<Rightarrow> jsval + http_response" where
  "no_vendor rq = Inl (JErr ''Error'' ''connection refused'')"

definition empty_store :: state where
  "empty_store =
     \<lparr>tables = [''customer'' \<mapsto> [], ''subscription'' \<mapsto> [], ''variant'' \<mapsto> [],
                ''product'' \<mapsto> []],
      next_id = 0, trace = []\<rparr>"

definition forged_request :: request where
  "forged_request =
     \<lparr>headers = [''x_signature'' \<mapsto> ''0000''], raw_body = created_body, data = created_data\<rparr>"

definition unsigned_request :: request where
  "unsigned_request = \<lparr>headers = Map.empty, raw_body = created_body, data = created_data\<rparr>"

definition order_request :: request where
  "order_request =
     \<lparr>headers = [''x_signature'' \<mapsto>
                  ''21adf9cccf1179938853a3064f6b58d16549deba882993a44644723b3aa4c710''],
      raw_body = order_body, data = order_data\<rparr>"

definition list_response :: "jsval list \<Rightarrow> jsval + http_response" where
  "list_response items = Inr \<lparr>status = 200, json = JObj [(''data'', JArr items)]\<rparr>"

definition empty_vendor :: "http_request \<Rightarrow> jsval + http_response" where
  "empty_vendor rq = list_response []"

definition subscription_1 :: jsval where
  "subscription_1 =
     JObj [(''id'', JStr ''1''),
           (''attributes'', JObj [(''customer_id'', JNum 7), (''status'', JStr ''active'')])]"

definition subscription_3 :: jsval where
  "subscription_3 = JObj [(''id'', JStr ''3'')]"

text \<open>A vendor whose second subscription is \<^verbatim>\<open>null\<close>.\<close>

definition broken_subscriptions_vendor :: "http_request \<Rightarrow> jsval + http_response" where
  "broken_subscriptions_vendor rq =
     (if url rq = subscriptions_url then list_response [subscription_1, JNull, subscription_3]
      else list_response [])"

text \<open>A vendor whose only variant has no attributes.\<close>

definition broken_variants_vendor :: "http_request \<Rightarrow> jsval + http_response" where
  "broken_variants_vendor rq =
     (if url rq = variants_url then list_response [JObj [(''id'', JStr ''v1'')]]
      else list_response [])"

text \<open>A vendor whose only product has no attributes.\<close>

definition broken_products_vendor :: "http_request \<Rightarrow> jsval + http_response" where
  "broken_products_vendor rq =
     (if url rq = products_url then list_response [JObj [(''id'', JStr ''p1'')]]
      else list_response [])"

definition created_request :: request where
  "created_request =
     \<lparr>headers = [''x_signature'' \<mapsto>
                  ''df6054308873b176749f2ff23252b278a3b56d4c1d6999dd3be651685eb24b9e''],
      raw_body = created_body, data = created_data\<rparr>"

text \<open>A store whose record of subscription 1 holds values of an earlier day.\<close>

definition stale_store :: state where
  "stale_store =
     \<lparr>tables = [''customer'' \<mapsto> [],
                ''subscription'' \<mapsto>
                  [\<lparr>row_id = 0,
                    row_fields = [''subscription_id'' \<mapsto> JStr ''1'',
                                  ''metadata'' \<mapsto> JStr ''plan=old'',
                                  ''cancel_at'' \<mapsto> JStr ''2024-05-01'',
                                  ''status'' \<mapsto> JStr ''on_trial'']\<rparr>],
                ''variant'' \<mapsto> [], ''product'' \<mapsto> []],
      next_id = 1, trace = []\<rparr>"

definition ada :: user where
  "ada = \<lparr>user_id = ''u1'', displayName = ''Ada'', email = ''ada@example.org''\<rparr>"

text \<open>A vendor that creates customer 5511 and answers every checkout.\<close>

definition shop_vendor :: "http_request \<Rightarrow> jsval + http_response" where
  "shop_vendor rq =
     (if url rq = ''https://api.lemonsqueezy.com/v1/customers''
      then Inr \<lparr>status = 201,
                json = JObj [(''data'', JObj [(''type'', JStr ''customers''),
                                              (''id'', JStr ''5511'')])]\<rparr>
      else if url rq = ''https://api.lemonsqueezy.com/v1/checkouts''
      then Inr \<lparr>status = 201,
                json = JObj [(''data'', JObj [(''type'', JStr ''checkouts''),
                                              (''id'', JStr ''chk-1'')])]\<rparr>
      else list_response [])"

definition checkout_call :: request where
  "checkout_call =
     \<lparr>headers = [''authorization'' \<mapsto> ''token-of-u1''], raw_body = [],
      data = JObj [(''variant_id'', JStr ''v1'')]\<rparr>"

text \<open>A store that already maps user u1 to customer 5511.\<close>

definition known_customer_store :: state where
  "known_customer_store =
     \<lparr>tables = [''customer'' \<mapsto>
                  [\<lparr>row_id = 0,
                    row_fields = [''lemonsqueezy_customer_id'' \<mapsto> JStr ''5511'',
                                  ''user_id'' \<mapsto> JStr ''u1'']\<rparr>],
                ''subscription'' \<mapsto> [], ''variant'' \<mapsto> [], ''product'' \<mapsto> []],
      next_id = 1, trace = []\<rparr>"

text \<open>The field table of \<open>subscription_1\<close>, which is also the \<^verbatim>\<open>data\<close> of
  \<open>created_request\<close>.\<close>

definition created_fields :: "(string \<times> jsval) list" where
  "created_fields =
     [(''subscription_id'', JStr ''1''),
      (''lemonsqueezy_customer_id'', JNum 7),
      (''status'', JStr ''active''),
      (''variant_id'', JStr []),
      (''quantity'', JNum 0),
      (''metadata'', JStr ''{}''),
      (''cancel_at_period_end'', JBool False),
      (''current_period_start'', JStr []),
      (''current_period_end'', JStr []),
      (''ended_at'', JStr []),
      (''cancel_at'', JStr []),
      (''canceled_at'', JStr []),
      (''trial_start'', JStr []),
      (''trial_end'', JStr [])]"

text \<open>A vendor with the one subscription 1.\<close>

definition one_subscription_vendor :: "http_request \<Rightarrow> jsval + http_response" where
  "one_subscription_vendor rq =
     (if url rq = subscriptions_url then list_response [subscription_1] else list_response [])"

section \<open>Rules for running a computation\<close>

lemma js_bind_ret [simp]: "js_bind (ret x) f = f x"
  by (rule ext) (simp add: js_bind_def ret_def)

lemma js_bind_throw [simp]: "js_bind (js_throw e) f = js_throw e"
  by (rule ext) (simp add: js_bind_def js_throw_def)

lemma js_bind_lift_Inr [simp]: "js_bind (lift (Inr x)) f = f x"
  by (rule ext) (simp add: js_bind_def lift_def)

lemma js_bind_lift_Inl [simp]: "js_bind (lift (Inl e)) f = js_throw e"
  by (rule ext) (simp add: js_bind_def lift_def js_throw_def)

lemma js_bind_emit [simp]: "js_bind (emit e) f s = f () (s\<lparr>trace := trace s @ [e]\<rparr>)"
  by (simp add: js_bind_def emit_def)

lemma js_bind_Inr: "m s = (Inr x, s') \<Longrightarrow> js_bind m f s = f x s'"
  by (simp add: js_bind_def)

lemma js_bind_Inl: "m s = (Inl e, s') \<Longrightarrow> js_bind m f s = (Inl e, s')"
  by (simp add: js_bind_def)

lemma try_catch_Inr: "m s = (Inr x, s') \<Longrightarrow> try_catch m hdl s = (Inr x, s')"
  by (simp add: try_catch_def)

lemma try_catch_Inl: "m s = (Inl e, s') \<Longrightarrow> try_catch m hdl s = hdl e s'"
  by (simp add: try_catch_def)

lemma send_run:
  "send h rq s = (http_send h rq, s\<lparr>trace := trace s @ [HttpSend (http_method rq) (url rq)]\<rparr>)"
  by (simp add: send_def lift_def)

lemma findRecordsByFilter_run:
  "tables s c = Some rs \<Longrightarrow> filter_eval h f = Some p \<Longrightarrow>
   findRecordsByFilter h c f s =
     (Inr (map (as_record c) (filter (\<lambda>r. p (row_fields r)) rs)),
      s\<lparr>trace := trace s @ [DbFind c f]\<rparr>)"
  by (simp add: findRecordsByFilter_def)

lemma findRecordsByFilter_cases:
  "findRecordsByFilter h c f s = (r, s') \<Longrightarrow>
   s' = s\<lparr>trace := trace s @ [DbFind c f]\<rparr> \<and>
   (case r of
      Inl e \<Rightarrow> True
    | Inr found \<Rightarrow>
        (\<exists>rs p. tables s c = Some rs \<and> filter_eval h f = Some p \<and>
                 found = map (as_record c) (filter (\<lambda>r. p (row_fields r)) rs)))"
  by (auto simp: findRecordsByFilter_def split: option.splits)

lemma findCollection_cases:
  "findCollectionByNameOrId c s = (r, s') \<Longrightarrow>
   s' = s\<lparr>trace := trace s @ [DbFindCollection c]\<rparr> \<and> (r = Inr c \<or> (\<exists>e. r = Inl e))"
  by (auto simp: findCollectionByNameOrId_def split: option.splits)

lemma saveRecord_Inl:
  "saveRecord h r s = (Inl e, s') \<Longrightarrow> s' = s\<lparr>trace := trace s @ [DbSave (rec_collection r)]\<rparr>"
  by (auto simp: saveRecord_def split: option.splits)

lemma saveRecord_Inr:
  "saveRecord h r s = (Inr u, s') \<Longrightarrow>
   \<exists>rs. tables s (rec_collection r) = Some rs \<and>
     validate h (rec_collection r) (rec_fields r) = None \<and>
     trace s' = trace s @ [DbSave (rec_collection r)] \<and>
     (case rec_id r of
        None \<Rightarrow> tables s' = (tables s)(rec_collection r \<mapsto>
                    rs @ [\<lparr>row_id = next_id s, row_fields = rec_fields r\<rparr>])
                \<and> next_id s' = Suc (next_id s)
      | Some i \<Rightarrow> tables s' = (tables s)(rec_collection r \<mapsto>
                    map (\<lambda>x. if row_id x = i then x\<lparr>row_fields := rec_fields r\<rparr> else x) rs)
                \<and> next_id s' = next_id s)"
  by (auto simp: saveRecord_def split: option.splits)

lemma upsert_Inl:
  assumes "upsert h coll key build item s = (Inl e, s')"
  shows "tables s' = tables s \<and> next_id s' = next_id s"
  using assms
  apply (simp add: upsert_def js_bind_def lift_def split: sum.splits prod.splits list.splits)
  apply (auto dest!: findRecordsByFilter_cases saveRecord_Inl findCollection_cases)
  done

lemma upsert_Inr:
  assumes "upsert h coll key build item s = (Inr u, s')"
  shows "\<exists>v rs p d. get_prop item ''id'' = Inr v \<and> tables s coll = Some rs \<and>
           filter_eval h (eq_filter key (to_string v)) = Some p \<and> build item = Inr d \<and>
           tables s' = (tables s)(coll \<mapsto> upserted p d (next_id s) rs)"
  using assms
  apply (simp add: upsert_def js_bind_def lift_def split: sum.splits prod.splits list.splits)
  apply (auto dest!: findRecordsByFilter_cases saveRecord_Inr findCollection_cases
              simp: upserted_def load_def new_Record_def as_record_def cong: if_cong)
  done

lemma signature_of_header:
  "headers rq ''x_signature'' = Some sig \<Longrightarrow>
   to_string (js_or (header rq ''x_signature'') (JStr [])) = sig"
  by (cases "sig = []") (simp_all add: header_def js_or_def)

lemma rethrow_Inr: "m s = (Inr x, s') \<Longrightarrow> rethrow label m s = (Inr x, s')"
  by (simp add: rethrow_def try_catch_def)

lemma rethrow_Inl:
  "m s = (Inl err, s') \<Longrightarrow>
   rethrow label m s = (Inl (rethrown label err), s'\<lparr>trace := trace s' @ [LogError]\<rparr>)"
  by (cases "get_prop err ''message''")
     (simp_all add: rethrow_def try_catch_def rethrown_def js_throw_def)

lemma forEach_append:
  "forEach f xs s = (Inr u, s1) \<Longrightarrow> forEach f (xs @ ys) s = forEach f ys s1"
  by (induction xs arbitrary: s) (auto split: prod.splits sum.splits)

lemma forEach_abort: "f x s = (Inl e, s') \<Longrightarrow> forEach f (x # ys) s = (Inl e, s')"
  by simp

lemma sync_stage_aborts:
  assumes "http_send h (sync_request h u) = Inr res"
    and "get_prop (json res) ''data'' = Inr (JArr (xs @ x # ys))"
    and "forEach (\<lambda>item. rethrow label (upsert h coll key build item)) xs
           (s\<lparr>trace := trace s @ [HttpSend ''GET'' u]\<rparr>) = (Inr (), s1)"
    and "upsert h coll key build x s1 = (Inl err, s2)"
  shows "sync_stage h u coll key build label s =
           (Inl (rethrown label err), s2\<lparr>trace := trace s2 @ [LogError]\<rparr>)"
proof -
  have "forEach (\<lambda>item. rethrow label (upsert h coll key build item)) (xs @ x # ys)
          (s\<lparr>trace := trace s @ [HttpSend ''GET'' u]\<rparr>) =
        (Inl (rethrown label err), s2\<lparr>trace := trace s2 @ [LogError]\<rparr>)"
    using assms(3,4) by (simp add: forEach_append rethrow_Inl)
  then show ?thesis
    using assms(1,2)
    by (simp add: sync_stage_def js_bind_def send_run sync_request_def for_each_of_def)
qed

lemma sync_stage_empty:
  assumes "http_send h (sync_request h u) = Inr res"
    and "get_prop (json res) ''data'' = Inr (JArr [])"
  shows "sync_stage h u coll key build label s =
           (Inr (), s\<lparr>trace := trace s @ [HttpSend ''GET'' u]\<rparr>)"
  using assms
  by (simp add: sync_stage_def js_bind_def send_run sync_request_def for_each_of_def)

lemma manual_sync_caught:
  assumes "js_bind (sync_subscriptions h) (\<lambda>_.
           js_bind (sync_variants h) (\<lambda>_.
           js_bind (sync_products h) (\<lambda>_.
           js_bind (emit LogInfo) (\<lambda>_.
             c_json 200 (JObj [(''message'', JStr ''success'')]))))) s = (Inl e, s')"
  shows "manual_sync h s =
           (Inr \<lparr>code = 400, body = JObj [(''message'', e)]\<rparr>,
            s'\<lparr>trace := trace s' @ [LogError]\<rparr>)"
  using assms by (simp add: manual_sync_def try_catch_def c_json_def ret_def)

lemma subscriptionData_fixed:
  "subscriptionData item = Inr d \<Longrightarrow>
   map_of d ''subscription_id'' = Some (js_prop item ''id'') \<and> fixed_fields (f ++ map_of d)"
  by (auto simp: subscriptionData_def then_read_def get_prop_def fixed_fields_def
           split: if_splits)

lemma filter_Cons_mem: "filter P xs = z # zs \<Longrightarrow> z \<in> set xs \<and> P z"
proof -
  assume "filter P xs = z # zs"
  then have "z \<in> set (filter P xs)" by simp
  then show ?thesis by simp
qed

lemma distinct_row_id:
  "distinct (map row_id rs) \<Longrightarrow> x \<in> set rs \<Longrightarrow> z \<in> set rs \<Longrightarrow> row_id x = row_id z \<Longrightarrow> x = z"
  by (meson distinct_map inj_onD)

lemma upserted_length:
  "length (upserted p d n rs) =
     (if filter (\<lambda>r. p (row_fields r)) rs = [] then Suc (length rs) else length rs)"
  by (simp add: upserted_def split: list.splits)

lemma upserted_ids:
  assumes "distinct (map row_id rs)" and "\<forall>r \<in> set rs. row_id r < n"
  shows "distinct (map row_id (upserted p d n rs)) \<and>
         (\<forall>r \<in> set (upserted p d n rs).
            row_id r < (if filter (\<lambda>r. p (row_fields r)) rs = [] then Suc n else n))"
proof (cases "filter (\<lambda>r. p (row_fields r)) rs")
  case Nil
  then show ?thesis
    using assms by (auto simp: upserted_def less_Suc_eq)
next
  case (Cons z zs)
  let ?upd = "\<lambda>x. if row_id x = row_id z then x\<lparr>row_fields := row_fields z ++ map_of d\<rparr> else x"
  have keep: "row_id \<circ> ?upd = row_id"
    by (rule ext) simp
  have ids: "map row_id (map ?upd rs) = map row_id rs"
    by (simp only: map_map keep)
  have d: "distinct (map row_id (map ?upd rs))"
    using assms(1) by (simp only: ids)
  have bound: "\<forall>r \<in> set (map ?upd rs). row_id r < n"
    using assms(2) by auto
  have eq: "upserted p d n rs = map ?upd rs"
    using Cons by (simp add: upserted_def)
  have ne: "(filter (\<lambda>r. p (row_fields r)) rs = []) = False"
    using Cons by simp
  show ?thesis
    unfolding eq by (simp only: ne if_False) (rule conjI [OF d bound])
qed

lemma subscriptionData_Inr:
  "get_prop item ''id'' = Inr v \<Longrightarrow>
   \<exists>d. subscriptionData item = Inr d \<and> map_of d ''subscription_id'' = Some v"
  by (auto simp: subscriptionData_def then_read_def get_prop_def split: if_splits)

lemma webhook_accepted:
  assumes "headers rq ''x_signature'' = Some (hs256 h (raw_body rq) (secret h))"
    and "get_prop (data rq) ''meta'' = Inr meta"
    and "get_prop meta ''event_name'' = Inr event_name"
    and "event_name \<in> set subscription_events"
  shows "webhook h rq s =
           js_bind (rethrow ''Failed to process subscription: ''
                      (upsert h ''subscription'' ''subscription_id'' subscriptionData
                         (js_prop (data rq) ''data'')))
             (\<lambda>_. c_json 200 (JObj [(''message'', JStr ''Data received successfully'')]))
             (s\<lparr>trace := trace s @ [LogInfo]\<rparr>)"
proof -
  from assms(2) have "get_prop (data rq) ''data'' = Inr (js_prop (data rq) ''data'')"
    by (simp add: get_prop_def split: if_splits)
  with assms show ?thesis
    by (simp add: webhook_def signature_of_header)
qed

lemma upsert_saves:
  assumes "get_prop item ''id'' = Inr v"
    and "filter_eval h (eq_filter key (to_string v)) = Some p"
    and "tables s coll = Some rs"
    and "build item = Inr d"
    and "validate h coll (saved_fields p d rs) = None"
  shows "upsert h coll key build item s =
           (Inr (),
            s\<lparr>trace := trace s @
                   DbFind coll (eq_filter key (to_string v)) #
                   (if filter (\<lambda>r. p (row_fields r)) rs = []
                    then [DbFindCollection coll, DbSave coll] else [DbSave coll]),
              tables := (tables s)(coll \<mapsto> upserted p d (next_id s) rs),
              next_id := (if filter (\<lambda>r. p (row_fields r)) rs = [] then Suc (next_id s)
                          else next_id s)\<rparr>)"
  using assms
  by (cases "filter (\<lambda>r. p (row_fields r)) rs")
     (simp_all add: upsert_def js_bind_def lift_def findRecordsByFilter_def emit_def
        findCollectionByNameOrId_def saveRecord_def load_def new_Record_def as_record_def
        upserted_def saved_fields_def cong: if_cong)

lemma upserted_rows:
  assumes "distinct (map row_id rs)"
    and "map_of d key = Some v"
  shows "filter (\<lambda>r. row_fields r key = Some v) (upserted (\<lambda>f. f key = Some v) d n rs) =
         (case filter (\<lambda>r. row_fields r key = Some v) rs of
            [] \<Rightarrow> [\<lparr>row_id = n, row_fields = map_of d\<rparr>]
          | z # zs \<Rightarrow> map (\<lambda>x. if row_id x = row_id z
                               then x\<lparr>row_fields := row_fields z ++ map_of d\<rparr> else x)
                        (z # zs))"
proof (cases "filter (\<lambda>r. row_fields r key = Some v) rs")
  case Nil
  then show ?thesis
    using assms(2) by (simp add: upserted_def)
next
  case (Cons z zs)
  let ?upd = "\<lambda>x. if row_id x = row_id z then x\<lparr>row_fields := row_fields z ++ map_of d\<rparr> else x"
  from Cons have z: "z \<in> set rs" "row_fields z key = Some v"
    using filter_Cons_mem [of "\<lambda>r. row_fields r key = Some v" rs z zs] by simp_all
  have same: "(row_fields (?upd x) key = Some v) = (row_fields x key = Some v)"
    if "x \<in> set rs" for x
  proof (cases "row_id x = row_id z")
    case True
    with assms(1) that z(1) have "x = z" by (rule distinct_row_id)
    with z(2) assms(2) show ?thesis by (simp add: map_add_Some_iff)
  next
    case False
    then show ?thesis by simp
  qed
  have "filter (\<lambda>r. row_fields r key = Some v) (map ?upd rs) =
        map ?upd (filter (\<lambda>r. row_fields r key = Some v) rs)"
    unfolding filter_map o_def using same by (intro arg_cong [of _ _ "map ?upd"] filter_cong) auto
  then show ?thesis
    using Cons by (simp add: upserted_def)
qed

lemma upserted_again:
  assumes "distinct (map row_id rs)"
    and "filter (\<lambda>r. p (row_fields r)) rs = z # zs"
    and "row_fields z = g ++ map_of d"
  shows "upserted p d n rs = rs"
proof -
  let ?upd = "\<lambda>x. if row_id x = row_id z then x\<lparr>row_fields := row_fields z ++ map_of d\<rparr> else x"
  from assms(2) have z: "z \<in> set rs"
    using filter_Cons_mem by fast
  have again: "row_fields z ++ map_of d = row_fields z"
    unfolding assms(3) by (rule ext) (simp add: map_add_def split: option.splits)
  have "?upd x = x" if "x \<in> set rs" for x
  proof (cases "row_id x = row_id z")
    case True
    with assms(1) that z have "x = z" by (rule distinct_row_id)
    with again show ?thesis by simp
  next
    case False
    then show ?thesis by simp
  qed
  then have "map ?upd rs = rs"
    by (simp add: map_idI)
  with assms(2) show ?thesis
    by (simp add: upserted_def)
qed

lemma webhook_delivery:
  assumes sig: "headers rq ''x_signature'' = Some (hs256 h (raw_body rq) (secret h))"
    and meta: "get_prop (data rq) ''meta'' = Inr meta"
    and ev: "get_prop meta ''event_name'' = Inr event_name"
    and known: "event_name \<in> set subscription_events"
    and sid: "get_prop (js_prop (data rq) ''data'') ''id'' = Inr (JStr sid)"
    and host: "host_filter_eq h ''subscription_id'' sid"
    and d: "subscriptionData (js_prop (data rq) ''data'') = Inr d"
    and tab: "tables s ''subscription'' = Some rs"
    and valid: "validate h ''subscription''
                  (saved_fields (\<lambda>f. f ''subscription_id'' = Some (JStr sid)) d rs) = None"
  shows "webhook h rq s =
           (Inr \<lparr>code = 200, body = JObj [(''message'', JStr ''Data received successfully'')]\<rparr>,
            s\<lparr>trace := trace s @
                   LogInfo # DbFind ''subscription'' (eq_filter ''subscription_id'' sid) #
                   (if rows_with ''subscription'' ''subscription_id'' (JStr sid) s = []
                    then [DbFindCollection ''subscription'', DbSave ''subscription'']
                    else [DbSave ''subscription'']),
              tables := (tables s)(''subscription'' \<mapsto>
                   upserted (\<lambda>f. f ''subscription_id'' = Some (JStr sid)) d (next_id s) rs),
              next_id := (if rows_with ''subscription'' ''subscription_id'' (JStr sid) s = []
                          then Suc (next_id s) else next_id s)\<rparr>)"
proof -
  let ?p = "\<lambda>f::fields. f ''subscription_id'' = Some (JStr sid)"
  let ?s0 = "s\<lparr>trace := trace s @ [LogInfo]\<rparr>"
  from host have flt: "filter_eval h (eq_filter ''subscription_id'' (to_string (JStr sid))) = Some ?p"
    by (simp add: host_filter_eq_def)
  from tab have tab0: "tables ?s0 ''subscription'' = Some rs" by simp
  note run = upsert_saves [where build = subscriptionData, OF sid flt tab0 d valid]
  have caught: "rethrow ''Failed to process subscription: ''
                  (upsert h ''subscription'' ''subscription_id'' subscriptionData
                     (js_prop (data rq) ''data'')) ?s0 =
                (Inr (), snd (upsert h ''subscription'' ''subscription_id'' subscriptionData
                     (js_prop (data rq) ''data'') ?s0))"
    by (rule rethrow_Inr) (simp add: run)
  show ?thesis
    unfolding webhook_accepted [OF sig meta ev known]
    using tab by (simp add: js_bind_def caught c_json_def ret_def run rows_with_def)
qed

lemma rethrow_Inr_iff:
  "rethrow label m s = (Inr x, s') \<longleftrightarrow> m s = (Inr x, s')"
proof (cases "m s")
  case (Pair r t)
  show ?thesis
  proof (cases r)
    case (Inl e)
    with Pair show ?thesis
      by (cases "get_prop e ''message''")
         (simp_all add: rethrow_def try_catch_def js_throw_def)
  next
    case (Inr y)
    with Pair show ?thesis
      by (simp add: rethrow_def try_catch_def)
  qed
qed

lemma forEach_rethrow:
  "forEach (\<lambda>item. rethrow label (m item)) xs s = (Inr u, s') \<Longrightarrow>
   forEach m xs s = (Inr u, s')"
proof (induction xs arbitrary: s)
  case Nil
  then show ?case by simp
next
  case (Cons x xs)
  obtain r t where step: "rethrow label (m x) s = (r, t)"
    by (cases "rethrow label (m x) s")
  with Cons.prems obtain v where r: "r = Inr v"
    by (cases r) simp_all
  with step have plain: "m x s = (Inr v, t)"
    by (simp add: rethrow_Inr_iff)
  from Cons.prems step r have "forEach (\<lambda>item. rethrow label (m item)) xs t = (Inr u, s')"
    by simp
  then have "forEach m xs t = (Inr u, s')"
    by (rule Cons.IH)
  with plain show ?case by simp
qed

lemma customer_request_trace:
  "HttpSend (http_method (customer_request h u)) (url (customer_request h u)) =
     HttpSend ''POST'' ''https://api.lemonsqueezy.com/v1/customers''"
  by (simp add: customer_request_def)

lemma resolve_customer_found:
  assumes "tables s ''customer'' = Some rs"
    and "filter_eval h (eq_filter ''user_id'' (user_id u)) = Some p"
    and "filter (\<lambda>r. p (row_fields r)) rs \<noteq> []"
  shows "\<exists>cid. resolve_customer h u s =
           (Inr cid, s\<lparr>trace := trace s @ [DbFind ''customer'' (eq_filter ''user_id'' (user_id u))]\<rparr>)"
  using assms
  by (cases "filter (\<lambda>r. p (row_fields r)) rs")
     (simp_all add: resolve_customer_def js_bind_def findRecordsByFilter_def emit_def ret_def)

lemma resolve_customer_Inl:
  "resolve_customer h u s = (Inl e, s') \<Longrightarrow> tables s' = tables s \<and> next_id s' = next_id s"
  apply (simp add: resolve_customer_def js_bind_def lift_def send_run ret_def
           split: sum.splits prod.splits list.splits)
  apply (auto dest!: findRecordsByFilter_cases saveRecord_Inl findCollection_cases)
  done

lemma resolve_customer_created:
  assumes "resolve_customer h u s = (Inr cid, s')"
    and "tables s ''customer'' = Some rs"
    and "filter_eval h (eq_filter ''user_id'' (user_id u)) = Some p"
    and "filter (\<lambda>r. p (row_fields r)) rs = []"
  shows "(\<exists>vr d. http_send h (customer_request h u) = Inr vr \<and>
                 get_prop (json vr) ''data'' = Inr d \<and> get_prop d ''id'' = Inr cid) \<and>
         tables s' = (tables s)(''customer'' \<mapsto> rs @
            [\<lparr>row_id = next_id s,
              row_fields = map_of [(''lemonsqueezy_customer_id'', cid),
                                   (''user_id'', JStr (user_id u))]\<rparr>]) \<and>
         trace s' = trace s @
            [DbFind ''customer'' (eq_filter ''user_id'' (user_id u)),
             HttpSend ''POST'' ''https://api.lemonsqueezy.com/v1/customers'',
             DbFindCollection ''customer'', DbSave ''customer'']"
  using assms
  apply (simp add: resolve_customer_def js_bind_def lift_def send_run ret_def
           findRecordsByFilter_def emit_def customer_request_trace
           split: sum.splits prod.splits)
  apply (auto dest!: saveRecord_Inr findCollection_cases
              simp: load_def new_Record_def)
  done

lemma forward_checkout_frame:
  "forward_checkout h rq u s = (r, s') \<Longrightarrow>
   tables s' = tables s \<and> next_id s' = next_id s \<and> customer_calls s' = customer_calls s"
  by (auto simp: forward_checkout_def js_bind_def lift_def try_catch_def send_run c_json_def
        ret_def emit_def customer_calls_def checkout_request_def
        split: sum.splits prod.splits)

lemma checkout_authorized:
  "findAuthRecordByToken h (auth_token rq) = Inr u \<Longrightarrow>
   create_checkout_session h rq s =
     js_bind (resolve_customer h u) (\<lambda>_. forward_checkout h rq u)
       (s\<lparr>trace := trace s @ [DbFindAuth]\<rparr>)"
  by (simp add: create_checkout_session_def auth_def js_bind_def try_catch_def emit_def lift_def
        ret_def)

lemma checkout_unauthorized:
  "findAuthRecordByToken h (auth_token rq) = Inl e \<Longrightarrow>
   create_checkout_session h rq s =
     (Inr \<lparr>code = 400, body = JObj [(''message'', JStr ''User not authorized'')]\<rparr>,
      s\<lparr>trace := trace s @ [DbFindAuth]\<rparr>)"
  by (simp add: create_checkout_session_def auth_def js_bind_def try_catch_def emit_def lift_def
        ret_def c_json_def)

lemma keeps_ret: "keeps c (ret x)"
  by (simp add: keeps_def ret_def)

lemma keeps_throw: "keeps c (js_throw e)"
  by (simp add: keeps_def js_throw_def)

lemma keeps_lift: "keeps c (lift r)"
  by (simp add: keeps_def lift_def)

lemma keeps_emit: "keeps c (emit e)"
  by (simp add: keeps_def emit_def)

lemma keeps_c_json: "keeps c (c_json n b)"
  by (simp add: c_json_def keeps_ret)

lemma keeps_bind: "keeps c m \<Longrightarrow> (\<And>x. keeps c (f x)) \<Longrightarrow> keeps c (js_bind m f)"
  unfolding keeps_def js_bind_def
  by (auto split: prod.splits sum.splits) (metis snd_conv)+

lemma keeps_try_catch: "keeps c m \<Longrightarrow> (\<And>e. keeps c (hdl e)) \<Longrightarrow> keeps c (try_catch m hdl)"
  unfolding keeps_def try_catch_def
  by (auto split: prod.splits sum.splits) (metis snd_conv)+

lemma keeps_send: "keeps c (send h rq)"
  by (simp add: keeps_def send_run)

lemma keeps_auth: "keeps c (auth h t)"
  by (simp add: auth_def keeps_bind keeps_emit keeps_lift)

lemma keeps_find: "keeps c (findRecordsByFilter h c' f)"
  by (auto simp: keeps_def findRecordsByFilter_def split: option.splits)

lemma keeps_find_first: "keeps c (findFirstRecordByFilter h c' f)"
  unfolding findFirstRecordByFilter_def
  by (intro keeps_bind keeps_find) (simp add: keeps_throw keeps_ret split: list.splits)

lemma keeps_upsert: "coll \<noteq> c \<Longrightarrow> keeps c (upsert h coll key build item)"
  unfolding keeps_def
proof
  fix s
  assume other: "coll \<noteq> c"
  obtain r s' where run: "upsert h coll key build item s = (r, s')"
    by (cases "upsert h coll key build item s")
  show "tables (snd (upsert h coll key build item s)) c = tables s c"
  proof (cases r)
    case (Inl e)
    with run upsert_Inl show ?thesis by fastforce
  next
    case (Inr u)
    with run upsert_Inr [of h coll key build item s u s'] other show ?thesis by auto
  qed
qed

lemma keeps_rethrow: "keeps c m \<Longrightarrow> keeps c (rethrow label m)"
  unfolding rethrow_def
  by (intro keeps_try_catch keeps_bind keeps_emit keeps_lift keeps_throw)

lemma keeps_forEach: "(\<And>x. keeps c (f x)) \<Longrightarrow> keeps c (forEach f xs)"
proof (induction xs)
  case Nil
  show ?case by (simp add: keeps_def)
next
  case (Cons x xs)
  have "forEach f (x # xs) = js_bind (f x) (\<lambda>_. forEach f xs)"
    by (rule ext) (simp add: js_bind_def split: prod.splits sum.splits)
  with Cons show ?case by (simp add: keeps_bind)
qed

lemma keeps_sync_stage: "coll \<noteq> c \<Longrightarrow> keeps c (sync_stage h u coll key build label)"
  unfolding sync_stage_def for_each_of_def
  by (intro keeps_bind keeps_send keeps_lift)
     (simp add: keeps_forEach keeps_rethrow keeps_upsert keeps_lift keeps_throw
        split: jsval.splits)

lemma keeps_webhook: "keeps ''customer'' (webhook h rq)"
  unfolding webhook_def Let_def
  by (simp add: keeps_throw keeps_bind keeps_lift keeps_emit keeps_rethrow keeps_upsert
        keeps_ret keeps_c_json)

lemma keeps_manual_sync: "keeps ''customer'' (manual_sync h)"
  unfolding manual_sync_def sync_subscriptions_def sync_variants_def sync_products_def
  by (intro keeps_try_catch keeps_bind keeps_sync_stage keeps_emit keeps_c_json) simp_all

lemma keeps_create_portal_link: "keeps ''customer'' (create_portal_link h rq)"
  unfolding create_portal_link_def
  by (intro keeps_try_catch keeps_bind keeps_auth keeps_find_first keeps_emit keeps_c_json)
     (simp add: keeps_bind keeps_send keeps_lift keeps_c_json split: option.splits)

lemma resolve_customer_Inr:
  assumes "resolve_customer h u s = (Inr cid, s')"
  shows "\<exists>rs p. tables s ''customer'' = Some rs \<and>
           filter_eval h (eq_filter ''user_id'' (user_id u)) = Some p \<and>
           tables s' ''customer'' =
             Some (if filter (\<lambda>r. p (row_fields r)) rs = []
                   then rs @ [customer_row (next_id s) cid u] else rs)"
proof -
  from assms obtain rs p where tab: "tables s ''customer'' = Some rs"
    and flt: "filter_eval h (eq_filter ''user_id'' (user_id u)) = Some p"
    by (auto simp: resolve_customer_def js_bind_def findRecordsByFilter_def emit_def
          split: option.splits)
  show ?thesis
  proof (cases "filter (\<lambda>r. p (row_fields r)) rs = []")
    case True
    from resolve_customer_created [OF assms tab flt True] tab flt True
    show ?thesis by (simp add: customer_row_def)
  next
    case False
    from resolve_customer_found [OF tab flt False] assms tab flt False
    show ?thesis by auto
  qed
qed

lemma checkout_customer_table:
  assumes auth: "findAuthRecordByToken h (auth_token rq) = Inr u"
    and tab: "tables s ''customer'' = Some rs"
  shows "tables (snd (create_checkout_session h rq s)) ''customer'' = Some rs \<or>
         (\<exists>p cid. filter_eval h (eq_filter ''user_id'' (user_id u)) = Some p \<and>
            filter (\<lambda>r. p (row_fields r)) rs = [] \<and>
            tables (snd (create_checkout_session h rq s)) ''customer'' =
              Some (rs @ [customer_row (next_id s) cid u]))"
proof -
  let ?s0 = "s\<lparr>trace := trace s @ [DbFindAuth]\<rparr>"
  obtain r1 s1 where res: "resolve_customer h u ?s0 = (r1, s1)"
    by (cases "resolve_customer h u ?s0")
  show ?thesis
  proof (cases r1)
    case (Inl e)
    with res have "create_checkout_session h rq s = (Inl e, s1)"
      by (simp add: checkout_authorized [OF auth] js_bind_def)
    moreover from res Inl have "tables s1 = tables ?s0"
      using resolve_customer_Inl by blast
    ultimately show ?thesis using tab by simp
  next
    case (Inr cid)
    with res have "create_checkout_session h rq s = forward_checkout h rq u s1"
      by (simp add: checkout_authorized [OF auth] js_bind_def)
    then have "tables (snd (create_checkout_session h rq s)) = tables s1"
      using forward_checkout_frame [of h rq u s1] by (metis prod.collapse)
    moreover from resolve_customer_Inr [OF res [unfolded Inr]] tab
    obtain p where "filter_eval h (eq_filter ''user_id'' (user_id u)) = Some p"
      "tables s1 ''customer'' =
         Some (if filter (\<lambda>r. p (row_fields r)) rs = []
               then rs @ [customer_row (next_id s) cid u] else rs)"
      by auto
    ultimately show ?thesis
      by (cases "filter (\<lambda>r. p (row_fields r)) rs = []") auto
  qed
qed

lemmas run_defs =
  upsert_def rethrow_def try_catch_def js_bind_def lift_def ret_def js_throw_def emit_def
  findRecordsByFilter_def findCollectionByNameOrId_def saveRecord_def load_def new_Record_def
  as_record_def get_prop_def nullish_def then_read_def eq_filter_def opt_chain_def js_or_def
  example_env_def example_filter_def empty_store_def send_def sync_request_def c_json_def

lemmas checkout_defs =
  create_checkout_session_def resolve_customer_def forward_checkout_def auth_def auth_token_def
  header_def example_auth_def customer_request_def checkout_request_def getString_def
  checkout_call_def

section \<open>The webhook's signature check\<close>

text \<open>
  Claim C1. A webhook request whose \<^verbatim>\<open>x_signature\<close> header differs from the
  HMAC-SHA256 of its raw body under the configured secret is rejected: the
  handler throws the BadRequestError of line 53. The state that comes back is
  the state that went in, trace included, so no subscription was looked up
  and none was written.
\<close>

theorem webhook_rejects_bad_signature:
  assumes "headers rq ''x_signature'' = Some sig"
    and "hs256 h (raw_body rq) (secret h) \<noteq> sig"
  shows "webhook h rq s = (Inl (JErr ''BadRequestError'' ''Invalid webhook signature.''), s)"
  using assms by (simp add: webhook_def signature_of_header js_throw_def)

theorem webhook_rejects_bad_signature_witness:
  "headers forged_request ''x_signature'' = Some ''0000''
   \<and> hs256 (example_env no_vendor) (raw_body forged_request) (secret (example_env no_vendor))
       \<noteq> ''0000''
   \<and> webhook (example_env no_vendor) forged_request empty_store =
       (Inl (JErr ''BadRequestError'' ''Invalid webhook signature.''), empty_store)"
  using webhook_rejects_bad_signature
          [of forged_request "''0000''" "example_env no_vendor" empty_store]
  by (simp add: example_env_def example_hs256_def created_body_def empty_store_def
        forged_request_def)

text \<open>
  Claim C10. A webhook request without an \<^verbatim>\<open>x_signature\<close> header is handled as
  the same request carrying the empty signature, and is rejected whenever the
  digest of its body is not the empty string. (A real HMAC-SHA256 digest is 64
  hexadecimal characters, so this is every body; the digest function belongs
  to the host, hence the hypothesis.)
\<close>

theorem webhook_missing_signature:
  assumes "headers rq ''x_signature'' = None"
  shows "webhook h rq s = webhook h (rq\<lparr>headers := (headers rq)(''x_signature'' \<mapsto> [])\<rparr>) s
       \<and> (hs256 h (raw_body rq) (secret h) \<noteq> [] \<longrightarrow>
            webhook h rq s = (Inl (JErr ''BadRequestError'' ''Invalid webhook signature.''), s))"
  using assms by (simp add: webhook_def header_def js_or_def js_throw_def cong: if_cong)

theorem webhook_missing_signature_witness:
  "headers unsigned_request ''x_signature'' = None
   \<and> hs256 (example_env no_vendor) (raw_body unsigned_request) (secret (example_env no_vendor))
       \<noteq> []
   \<and> webhook (example_env no_vendor) unsigned_request empty_store =
       (Inl (JErr ''BadRequestError'' ''Invalid webhook signature.''), empty_store)"
proof -
  have absent: "headers unsigned_request ''x_signature'' = None"
    by (simp add: unsigned_request_def)
  have digest:
    "hs256 (example_env no_vendor) (raw_body unsigned_request) (secret (example_env no_vendor))
       \<noteq> []"
    by (simp add: example_env_def example_hs256_def created_body_def unsigned_request_def)
  from webhook_missing_signature [OF absent, of "example_env no_vendor" empty_store] digest
  have "webhook (example_env no_vendor) unsigned_request empty_store =
          (Inl (JErr ''BadRequestError'' ''Invalid webhook signature.''), empty_store)"
    by blast
  with absent digest show ?thesis by blast
qed

section \<open>The webhook's dispatch on the event name\<close>

text \<open>
  Claim C5. A validly signed webhook request whose event name is none of the
  three names of the \<^verbatim>\<open>switch\<close> is answered with status 200, and the only
  effect is the log line of line 56: no record is read and none is written.
  The event name may be anything that \<^verbatim>\<open>data.meta.event_name\<close> reads,
  \<^verbatim>\<open>undefined\<close> included.
\<close>

theorem webhook_ignores_other_events:
  assumes "headers rq ''x_signature'' = Some (hs256 h (raw_body rq) (secret h))"
    and "get_prop (data rq) ''meta'' = Inr meta"
    and "get_prop meta ''event_name'' = Inr event_name"
    and "event_name \<notin> set subscription_events"
  shows "webhook h rq s =
           (Inr \<lparr>code = 200, body = JObj [(''message'', JStr ''Data received successfully'')]\<rparr>,
            s\<lparr>trace := trace s @ [LogInfo]\<rparr>)"
  using assms by (simp add: webhook_def signature_of_header c_json_def ret_def)

theorem webhook_ignores_other_events_witness:
  "headers order_request ''x_signature'' =
     Some (hs256 (example_env no_vendor) (raw_body order_request) (secret (example_env no_vendor)))
   \<and> get_prop (data order_request) ''meta'' = Inr (JObj [(''event_name'', JStr ''order_created'')])
   \<and> get_prop (JObj [(''event_name'', JStr ''order_created'')]) ''event_name''
       = Inr (JStr ''order_created'')
   \<and> JStr ''order_created'' \<notin> set subscription_events
   \<and> webhook (example_env no_vendor) order_request empty_store =
       (Inr \<lparr>code = 200, body = JObj [(''message'', JStr ''Data received successfully'')]\<rparr>,
        empty_store\<lparr>trace := [LogInfo]\<rparr>)"
  using webhook_ignores_other_events
          [of order_request "example_env no_vendor"
              "JObj [(''event_name'', JStr ''order_created'')]" "JStr ''order_created''"
              empty_store]
  by (simp add: example_env_def example_hs256_def created_body_def order_body_def
        order_data_def empty_store_def order_request_def get_prop_def nullish_def
        subscription_events_def)

section \<open>The synchronization\<close>

text \<open>
  Claim C7. When the three vendor lists come back with an empty \<^verbatim>\<open>data\<close>
  array, the synchronization answers 200 with the message \<^verbatim>\<open>success\<close>, and the
  state differs from the one before only in its trace, which gains the three
  fetches and the closing log line: no record is looked up, none is written,
  the tables are as they were.
\<close>

theorem sync_of_empty_lists_writes_nothing:
  assumes "http_send h (sync_request h subscriptions_url) = Inr r1"
    and "get_prop (json r1) ''data'' = Inr (JArr [])"
    and "http_send h (sync_request h variants_url) = Inr r2"
    and "get_prop (json r2) ''data'' = Inr (JArr [])"
    and "http_send h (sync_request h products_url) = Inr r3"
    and "get_prop (json r3) ''data'' = Inr (JArr [])"
  shows "manual_sync h s =
           (Inr \<lparr>code = 200, body = JObj [(''message'', JStr ''success'')]\<rparr>,
            s\<lparr>trace := trace s @ [HttpSend ''GET'' subscriptions_url,
                                   HttpSend ''GET'' variants_url,
                                   HttpSend ''GET'' products_url, LogInfo]\<rparr>)"
  using assms
  by (simp add: manual_sync_def try_catch_def sync_subscriptions_def sync_variants_def
        sync_products_def js_bind_Inr [OF sync_stage_empty] c_json_def ret_def)

theorem sync_of_empty_lists_writes_nothing_witness:
  "manual_sync (example_env empty_vendor) empty_store =
     (Inr \<lparr>code = 200, body = JObj [(''message'', JStr ''success'')]\<rparr>,
      empty_store\<lparr>trace := trace empty_store @
                       [HttpSend ''GET'' subscriptions_url, HttpSend ''GET'' variants_url,
                        HttpSend ''GET'' products_url, LogInfo]\<rparr>)"
proof -
  have fetch: "http_send (example_env empty_vendor) (sync_request (example_env empty_vendor) u) =
          Inr \<lparr>status = 200, json = JObj [(''data'', JArr [])]\<rparr>" for u
    by (simp add: example_env_def empty_vendor_def list_response_def)
  have empty: "get_prop (json \<lparr>status = 200, json = JObj [(''data'', JArr [])]\<rparr>) ''data'' =
          Inr (JArr [])"
    by (simp add: get_prop_def nullish_def)
  show ?thesis
    by (rule sync_of_empty_lists_writes_nothing [OF fetch empty fetch empty fetch empty])
qed

text \<open>
  Claim C6. When the upsert of one item of a vendor list throws, the loop over
  that list ends there: the handler answers 400 with the rethrown error, the
  state is the one that the failed upsert left plus the two error log lines,
  and its tables are those that the items before the failing one produced. No
  later item and no later list is processed. The three conjuncts are the three
  loops; \<open>s1\<close> is the state after the items \<open>xs\<close> that precede the failing item
  \<open>x\<close>, and \<open>ys\<close> are the items after it.
\<close>

theorem sync_item_failure_aborts:
  "(http_send h (sync_request h subscriptions_url) = Inr res \<and>
    get_prop (json res) ''data'' = Inr (JArr (xs @ x # ys)) \<and>
    forEach (\<lambda>item. rethrow ''Failed to process subscription: ''
                      (upsert h ''subscription'' ''subscription_id'' subscriptionData item)) xs
      (s\<lparr>trace := trace s @ [HttpSend ''GET'' subscriptions_url]\<rparr>) = (Inr (), s1) \<and>
    upsert h ''subscription'' ''subscription_id'' subscriptionData x s1 = (Inl err, s2)
    \<longrightarrow> manual_sync h s =
          (Inr \<lparr>code = 400,
                body = JObj [(''message'', rethrown ''Failed to process subscription: '' err)]\<rparr>,
           s2\<lparr>trace := trace s2 @ [LogError, LogError]\<rparr>)
        \<and> tables s2 = tables s1)
 \<and> (sync_subscriptions h s = (Inr (), sa) \<and>
    http_send h (sync_request h variants_url) = Inr res \<and>
    get_prop (json res) ''data'' = Inr (JArr (xs @ x # ys)) \<and>
    forEach (\<lambda>item. rethrow ''Failed to process variant: ''
                      (upsert h ''variant'' ''variant_id'' variantData item)) xs
      (sa\<lparr>trace := trace sa @ [HttpSend ''GET'' variants_url]\<rparr>) = (Inr (), s1) \<and>
    upsert h ''variant'' ''variant_id'' variantData x s1 = (Inl err, s2)
    \<longrightarrow> manual_sync h s =
          (Inr \<lparr>code = 400,
                body = JObj [(''message'', rethrown ''Failed to process variant: '' err)]\<rparr>,
           s2\<lparr>trace := trace s2 @ [LogError, LogError]\<rparr>)
        \<and> tables s2 = tables s1)
 \<and> (sync_subscriptions h s = (Inr (), sa) \<and> sync_variants h sa = (Inr (), sb) \<and>
    http_send h (sync_request h products_url) = Inr res \<and>
    get_prop (json res) ''data'' = Inr (JArr (xs @ x # ys)) \<and>
    forEach (\<lambda>item. rethrow ''Failed to process product: ''
                      (upsert h ''product'' ''product_id'' productData item)) xs
      (sb\<lparr>trace := trace sb @ [HttpSend ''GET'' products_url]\<rparr>) = (Inr (), s1) \<and>
    upsert h ''product'' ''product_id'' productData x s1 = (Inl err, s2)
    \<longrightarrow> manual_sync h s =
          (Inr \<lparr>code = 400,
                body = JObj [(''message'', rethrown ''Failed to process product: '' err)]\<rparr>,
           s2\<lparr>trace := trace s2 @ [LogError, LogError]\<rparr>)
        \<and> tables s2 = tables s1)"
proof (intro conjI impI; elim conjE)
  assume "http_send h (sync_request h subscriptions_url) = Inr res"
    and "get_prop (json res) ''data'' = Inr (JArr (xs @ x # ys))"
    and "forEach (\<lambda>item. rethrow ''Failed to process subscription: ''
                      (upsert h ''subscription'' ''subscription_id'' subscriptionData item)) xs
      (s\<lparr>trace := trace s @ [HttpSend ''GET'' subscriptions_url]\<rparr>) = (Inr (), s1)"
    and "upsert h ''subscription'' ''subscription_id'' subscriptionData x s1 = (Inl err, s2)"
  from sync_stage_aborts [OF this]
  have "sync_subscriptions h s =
          (Inl (rethrown ''Failed to process subscription: '' err),
           s2\<lparr>trace := trace s2 @ [LogError]\<rparr>)"
    by (simp add: sync_subscriptions_def)
  then show "manual_sync h s =
          (Inr \<lparr>code = 400,
                body = JObj [(''message'', rethrown ''Failed to process subscription: '' err)]\<rparr>,
           s2\<lparr>trace := trace s2 @ [LogError, LogError]\<rparr>)"
    by (simp add: manual_sync_caught js_bind_Inl)
next
  assume "sync_subscriptions h s = (Inr (), sa)"
    and "http_send h (sync_request h variants_url) = Inr res"
    and "get_prop (json res) ''data'' = Inr (JArr (xs @ x # ys))"
    and "forEach (\<lambda>item. rethrow ''Failed to process variant: ''
                      (upsert h ''variant'' ''variant_id'' variantData item)) xs
      (sa\<lparr>trace := trace sa @ [HttpSend ''GET'' variants_url]\<rparr>) = (Inr (), s1)"
    and "upsert h ''variant'' ''variant_id'' variantData x s1 = (Inl err, s2)"
  note a = this
  from sync_stage_aborts [OF a(2-5)]
  have "sync_variants h sa =
          (Inl (rethrown ''Failed to process variant: '' err),
           s2\<lparr>trace := trace s2 @ [LogError]\<rparr>)"
    by (simp add: sync_variants_def)
  with a(1) show "manual_sync h s =
          (Inr \<lparr>code = 400,
                body = JObj [(''message'', rethrown ''Failed to process variant: '' err)]\<rparr>,
           s2\<lparr>trace := trace s2 @ [LogError, LogError]\<rparr>)"
    by (simp add: manual_sync_caught js_bind_Inl js_bind_Inr)
next
  assume "sync_subscriptions h s = (Inr (), sa)"
    and "sync_variants h sa = (Inr (), sb)"
    and "http_send h (sync_request h products_url) = Inr res"
    and "get_prop (json res) ''data'' = Inr (JArr (xs @ x # ys))"
    and "forEach (\<lambda>item. rethrow ''Failed to process product: ''
                      (upsert h ''product'' ''product_id'' productData item)) xs
      (sb\<lparr>trace := trace sb @ [HttpSend ''GET'' products_url]\<rparr>) = (Inr (), s1)"
    and "upsert h ''product'' ''product_id'' productData x s1 = (Inl err, s2)"
  note a = this
  from sync_stage_aborts [OF a(3-6)]
  have "sync_products h sb =
          (Inl (rethrown ''Failed to process product: '' err),
           s2\<lparr>trace := trace s2 @ [LogError]\<rparr>)"
    by (simp add: sync_products_def)
  with a(1,2) show "manual_sync h s =
          (Inr \<lparr>code = 400,
                body = JObj [(''message'', rethrown ''Failed to process product: '' err)]\<rparr>,
           s2\<lparr>trace := trace s2 @ [LogError, LogError]\<rparr>)"
    by (simp add: manual_sync_caught js_bind_Inl js_bind_Inr)
qed (auto dest: upsert_Inl)

theorem sync_item_failure_aborts_witness:
  "(fst (manual_sync (example_env broken_subscriptions_vendor) empty_store) =
      Inr \<lparr>code = 400,
           body = JObj [(''message'', JErr ''BadRequestError''
                    ''Failed to process subscription: Cannot read property id'')]\<rparr>
    \<and> table_size ''subscription''
          (snd (manual_sync (example_env broken_subscriptions_vendor) empty_store)) = 1)
   \<and> (fst (manual_sync (example_env broken_variants_vendor) empty_store) =
      Inr \<lparr>code = 400,
           body = JObj [(''message'', JErr ''BadRequestError''
                    ''Failed to process variant: Cannot read property product_id'')]\<rparr>
    \<and> table_size ''variant''
          (snd (manual_sync (example_env broken_variants_vendor) empty_store)) = 0)
   \<and> (fst (manual_sync (example_env broken_products_vendor) empty_store) =
      Inr \<lparr>code = 400,
           body = JObj [(''message'', JErr ''BadRequestError''
                    ''Failed to process product: Cannot read property status'')]\<rparr>
    \<and> table_size ''product''
          (snd (manual_sync (example_env broken_products_vendor) empty_store)) = 0)"
proof (intro conjI)
  let ?h = "example_env broken_subscriptions_vendor"
  let ?s0 = "empty_store\<lparr>trace := trace empty_store @ [HttpSend ''GET'' subscriptions_url]\<rparr>"
  let ?loop = "forEach (\<lambda>item. rethrow ''Failed to process subscription: ''
                 (upsert ?h ''subscription'' ''subscription_id'' subscriptionData item))
                 [subscription_1] ?s0"
  let ?s1 = "snd ?loop"
  let ?e = "JErr ''TypeError'' ''Cannot read property id''"
  let ?fail = "upsert ?h ''subscription'' ''subscription_id'' subscriptionData JNull ?s1"
  have fetch: "http_send ?h (sync_request ?h subscriptions_url) =
      Inr \<lparr>status = 200,
           json = JObj [(''data'', JArr ([subscription_1] @ JNull # [subscription_3]))]\<rparr>"
    by (simp add: example_env_def broken_subscriptions_vendor_def list_response_def
          sync_request_def)
  have items: "get_prop (json \<lparr>status = 200,
        json = JObj [(''data'', JArr ([subscription_1] @ JNull # [subscription_3]))]\<rparr>)
        ''data'' =
      Inr (JArr ([subscription_1] @ JNull # [subscription_3]))"
    by (simp add: get_prop_def nullish_def)
  have "fst ?loop = Inr ()"
    by (simp add: run_defs subscription_1_def subscriptionData_def)
  then have before: "?loop = (Inr (), ?s1)"
    by (simp add: prod_eq_iff)
  have size: "table_size ''subscription'' ?s1 = 1"
    by (simp add: run_defs subscription_1_def subscriptionData_def table_size_def)
  have "fst ?fail = Inl ?e"
    by (simp add: upsert_def get_prop_def nullish_def js_throw_def)
  then have failure: "?fail = (Inl ?e, snd ?fail)"
    by (simp add: prod_eq_iff)
  from sync_item_failure_aborts
         [where h = ?h and s = empty_store and xs = "[subscription_1]" and x = JNull
            and ys = "[subscription_3]" and ?s1.0 = ?s1 and err = ?e
            and ?s2.0 = "snd ?fail", THEN conjunct1]
       fetch items before failure
  have r: "manual_sync ?h empty_store =
          (Inr \<lparr>code = 400,
                body = JObj [(''message'', rethrown ''Failed to process subscription: '' ?e)]\<rparr>,
           (snd ?fail)\<lparr>trace := trace (snd ?fail) @ [LogError, LogError]\<rparr>)
        \<and> tables (snd ?fail) = tables ?s1"
    by blast
  from r show "fst (manual_sync ?h empty_store) =
      Inr \<lparr>code = 400,
           body = JObj [(''message'', JErr ''BadRequestError''
                    ''Failed to process subscription: Cannot read property id'')]\<rparr>"
    by (simp add: rethrown_def get_prop_def nullish_def)
  from r size show "table_size ''subscription'' (snd (manual_sync ?h empty_store)) = 1"
    by (simp add: table_size_def)
next
  let ?h = "example_env broken_variants_vendor"
  let ?sa = "empty_store\<lparr>trace := trace empty_store @ [HttpSend ''GET'' subscriptions_url]\<rparr>"
  let ?s1 = "?sa\<lparr>trace := trace ?sa @ [HttpSend ''GET'' variants_url]\<rparr>"
  let ?x = "JObj [(''id'', JStr ''v1'')]"
  let ?e = "JErr ''TypeError'' ''Cannot read property product_id''"
  let ?fail = "upsert ?h ''variant'' ''variant_id'' variantData ?x ?s1"
  have subs: "sync_subscriptions ?h empty_store = (Inr (), ?sa)"
    unfolding sync_subscriptions_def
    by (rule sync_stage_empty [where res = "\<lparr>status = 200, json = JObj [(''data'', JArr [])]\<rparr>"])
       (simp_all add: example_env_def broken_variants_vendor_def list_response_def
          sync_request_def subscriptions_url_def variants_url_def get_prop_def nullish_def)
  have fetch: "http_send ?h (sync_request ?h variants_url) =
      Inr \<lparr>status = 200, json = JObj [(''data'', JArr ([] @ ?x # []))]\<rparr>"
    by (simp add: example_env_def broken_variants_vendor_def list_response_def sync_request_def)
  have items: "get_prop (json \<lparr>status = 200, json = JObj [(''data'', JArr ([] @ ?x # []))]\<rparr>)
      ''data'' = Inr (JArr ([] @ ?x # []))"
    by (simp add: get_prop_def nullish_def)
  have before: "forEach (\<lambda>item. rethrow ''Failed to process variant: ''
                 (upsert ?h ''variant'' ''variant_id'' variantData item)) [] ?s1 = (Inr (), ?s1)"
    by simp
  have "fst ?fail = Inl ?e"
    by (simp add: run_defs variantData_def)
  then have failure: "?fail = (Inl ?e, snd ?fail)"
    by (simp add: prod_eq_iff)
  from sync_item_failure_aborts
         [where h = ?h and s = empty_store and sa = ?sa and xs = "[]" and x = ?x
            and ys = "[]" and ?s1.0 = ?s1 and err = ?e and ?s2.0 = "snd ?fail",
          THEN conjunct2, THEN conjunct1]
       subs fetch items before failure
  have r: "manual_sync ?h empty_store =
          (Inr \<lparr>code = 400,
                body = JObj [(''message'', rethrown ''Failed to process variant: '' ?e)]\<rparr>,
           (snd ?fail)\<lparr>trace := trace (snd ?fail) @ [LogError, LogError]\<rparr>)
        \<and> tables (snd ?fail) = tables ?s1"
    by blast
  from r show "fst (manual_sync ?h empty_store) =
      Inr \<lparr>code = 400,
           body = JObj [(''message'', JErr ''BadRequestError''
                    ''Failed to process variant: Cannot read property product_id'')]\<rparr>"
    by (simp add: rethrown_def get_prop_def nullish_def)
  from r show "table_size ''variant'' (snd (manual_sync ?h empty_store)) = 0"
    by (simp add: table_size_def empty_store_def)
next
  let ?h = "example_env broken_products_vendor"
  let ?sa = "empty_store\<lparr>trace := trace empty_store @ [HttpSend ''GET'' subscriptions_url]\<rparr>"
  let ?sb = "?sa\<lparr>trace := trace ?sa @ [HttpSend ''GET'' variants_url]\<rparr>"
  let ?s1 = "?sb\<lparr>trace := trace ?sb @ [HttpSend ''GET'' products_url]\<rparr>"
  let ?x = "JObj [(''id'', JStr ''p1'')]"
  let ?e = "JErr ''TypeError'' ''Cannot read property status''"
  let ?fail = "upsert ?h ''product'' ''product_id'' productData ?x ?s1"
  have subs: "sync_subscriptions ?h empty_store = (Inr (), ?sa)"
    unfolding sync_subscriptions_def
    by (rule sync_stage_empty [where res = "\<lparr>status = 200, json = JObj [(''data'', JArr [])]\<rparr>"])
       (simp_all add: example_env_def broken_products_vendor_def list_response_def
          sync_request_def subscriptions_url_def products_url_def get_prop_def nullish_def)
  have vars: "sync_variants ?h ?sa = (Inr (), ?sb)"
    unfolding sync_variants_def
    by (rule sync_stage_empty [where res = "\<lparr>status = 200, json = JObj [(''data'', JArr [])]\<rparr>"])
       (simp_all add: example_env_def broken_products_vendor_def list_response_def
          sync_request_def variants_url_def products_url_def get_prop_def nullish_def)
  have fetch: "http_send ?h (sync_request ?h products_url) =
      Inr \<lparr>status = 200, json = JObj [(''data'', JArr ([] @ ?x # []))]\<rparr>"
    by (simp add: example_env_def broken_products_vendor_def list_response_def sync_request_def)
  have items: "get_prop (json \<lparr>status = 200, json = JObj [(''data'', JArr ([] @ ?x # []))]\<rparr>)
      ''data'' = Inr (JArr ([] @ ?x # []))"
    by (simp add: get_prop_def nullish_def)
  have before: "forEach (\<lambda>item. rethrow ''Failed to process product: ''
                 (upsert ?h ''product'' ''product_id'' productData item)) [] ?s1 = (Inr (), ?s1)"
    by simp
  have "fst ?fail = Inl ?e"
    by (simp add: run_defs productData_def)
  then have failure: "?fail = (Inl ?e, snd ?fail)"
    by (simp add: prod_eq_iff)
  from sync_item_failure_aborts
         [where h = ?h and s = empty_store and sa = ?sa and sb = ?sb and xs = "[]"
            and x = ?x and ys = "[]" and ?s1.0 = ?s1 and err = ?e
            and ?s2.0 = "snd ?fail", THEN conjunct2, THEN conjunct2]
       subs vars fetch items before failure
  have r: "manual_sync ?h empty_store =
          (Inr \<lparr>code = 400,
                body = JObj [(''message'', rethrown ''Failed to process product: '' ?e)]\<rparr>,
           (snd ?fail)\<lparr>trace := trace (snd ?fail) @ [LogError, LogError]\<rparr>)
        \<and> tables (snd ?fail) = tables ?s1"
    by blast
  from r show "fst (manual_sync ?h empty_store) =
      Inr \<lparr>code = 400,
           body = JObj [(''message'', JErr ''BadRequestError''
                    ''Failed to process product: Cannot read property status'')]\<rparr>"
    by (simp add: rethrown_def get_prop_def nullish_def)
  from r show "table_size ''product'' (snd (manual_sync ?h empty_store)) = 0"
    by (simp add: table_size_def empty_store_def)
qed

section \<open>The subscription upsert\<close>

text \<open>
  Claim C9. Every subscription upsert, in the webhook (lines 69-95) and in the
  synchronization (lines 452-478), sets \<^verbatim>\<open>metadata\<close> to the string \<^verbatim>\<open>{}\<close> and
  \<^verbatim>\<open>cancel_at\<close>, \<^verbatim>\<open>canceled_at\<close> and \<^verbatim>\<open>trial_start\<close> to the empty string, whatever
  the payload holds and whatever the record held.

  First conjunct: an upsert that went through leaves exactly this
  subscription table. When the filter found records, the first of them,
  \<open>z\<close>, now holds its old fields with the field table \<open>d\<close> of the item loaded
  over them, and every other row is as before; when it found none, one row
  holding \<open>d\<close> is appended. Loaded over any fields \<open>f\<close> whatever, \<open>d\<close> gives the
  four constants, so the record that was found has them now, whatever it held.

  Second and third conjunct: the upserts of the handlers are these. A webhook
  delivery of a subscription event that is answered has run this upsert on
  the event's \<^verbatim>\<open>data\<close>, and its state is the one that the upsert left; a
  synchronization of the subscriptions that went through has run this upsert
  on each item of the list in turn.
\<close>

theorem subscription_upsert_fixed_fields:
  "(upsert h ''subscription'' ''subscription_id'' subscriptionData item s = (Inr u, s') \<longrightarrow>
      (\<exists>rs p d rs'.
         tables s ''subscription'' = Some rs \<and>
         filter_eval h (eq_filter ''subscription_id'' (to_string (js_prop item ''id''))) = Some p \<and>
         subscriptionData item = Inr d \<and>
         (\<forall>f. fixed_fields (f ++ map_of d)) \<and>
         tables s' = (tables s)(''subscription'' \<mapsto> rs') \<and>
         rs' = (case filter (\<lambda>r. p (row_fields r)) rs of
                  [] \<Rightarrow> rs @ [\<lparr>row_id = next_id s, row_fields = map_of d\<rparr>]
                | z # _ \<Rightarrow> map (\<lambda>x. if row_id x = row_id z
                                     then x\<lparr>row_fields := row_fields z ++ map_of d\<rparr>
                                     else x) rs) \<and>
         (\<forall>z zs. filter (\<lambda>r. p (row_fields r)) rs = z # zs \<longrightarrow>
            z\<lparr>row_fields := row_fields z ++ map_of d\<rparr> \<in> set rs' \<and>
            (\<forall>r \<in> set rs'. row_id r = row_id z \<longrightarrow>
               row_fields r = row_fields z ++ map_of d \<and> fixed_fields (row_fields r)))))
   \<and> (headers rq ''x_signature'' = Some (hs256 h (raw_body rq) (secret h)) \<and>
       get_prop (data rq) ''meta'' = Inr meta \<and>
       get_prop meta ''event_name'' = Inr event_name \<and>
       event_name \<in> set subscription_events \<and>
       webhook h rq t = (Inr resp, s') \<longrightarrow>
        upsert h ''subscription'' ''subscription_id'' subscriptionData (js_prop (data rq) ''data'')
          (t\<lparr>trace := trace t @ [LogInfo]\<rparr>) = (Inr (), s'))
   \<and> (http_send h (sync_request h subscriptions_url) = Inr res \<and>
       get_prop (json res) ''data'' = Inr (JArr xs) \<and>
       sync_subscriptions h t = (Inr u, s') \<longrightarrow>
        forEach (upsert h ''subscription'' ''subscription_id'' subscriptionData) xs
          (t\<lparr>trace := trace t @ [HttpSend ''GET'' subscriptions_url]\<rparr>) = (Inr u, s'))"
proof (intro conjI impI; (elim conjE)?)
  assume run: "upsert h ''subscription'' ''subscription_id'' subscriptionData item s = (Inr u, s')"
  from upsert_Inr [OF run] obtain v rs p d where
    v: "get_prop item ''id'' = Inr v"
    and tab: "tables s ''subscription'' = Some rs"
    and flt: "filter_eval h (eq_filter ''subscription_id'' (to_string v)) = Some p"
    and d: "subscriptionData item = Inr d"
    and tab': "tables s' = (tables s)(''subscription'' \<mapsto> upserted p d (next_id s) rs)"
    by blast
  let ?rs' = "upserted p d (next_id s) rs"
  from v have id: "v = js_prop item ''id''"
    by (simp add: get_prop_def split: if_splits)
  have fixed: "fixed_fields (f ++ map_of d)" for f
    using subscriptionData_fixed [OF d] by blast
  have found: "z\<lparr>row_fields := row_fields z ++ map_of d\<rparr> \<in> set ?rs' \<and>
            (\<forall>r \<in> set ?rs'. row_id r = row_id z \<longrightarrow>
               row_fields r = row_fields z ++ map_of d \<and> fixed_fields (row_fields r))"
    if hit: "filter (\<lambda>r. p (row_fields r)) rs = z # zs" for z zs
  proof
    let ?upd = "\<lambda>x. if row_id x = row_id z then x\<lparr>row_fields := row_fields z ++ map_of d\<rparr> else x"
    from hit have eq: "?rs' = map ?upd rs"
      by (simp add: upserted_def)
    from hit have "z \<in> set rs"
      using filter_Cons_mem by fast
    then have "?upd z \<in> set (map ?upd rs)"
      unfolding set_map by (rule imageI)
    then show "z\<lparr>row_fields := row_fields z ++ map_of d\<rparr> \<in> set ?rs'"
      by (simp add: eq)
    show "\<forall>r \<in> set ?rs'. row_id r = row_id z \<longrightarrow>
               row_fields r = row_fields z ++ map_of d \<and> fixed_fields (row_fields r)"
      unfolding eq using fixed [of "row_fields z"] by (auto split: if_splits)
  qed
  have "?rs' = (case filter (\<lambda>r. p (row_fields r)) rs of
                  [] \<Rightarrow> rs @ [\<lparr>row_id = next_id s, row_fields = map_of d\<rparr>]
                | z # _ \<Rightarrow> map (\<lambda>x. if row_id x = row_id z
                                     then x\<lparr>row_fields := row_fields z ++ map_of d\<rparr>
                                     else x) rs)"
    by (simp add: upserted_def)
  moreover have "tables s' = (tables s)(''subscription'' \<mapsto> ?rs')"
    using tab' by simp
  ultimately show "\<exists>rs p d rs'.
         tables s ''subscription'' = Some rs \<and>
         filter_eval h (eq_filter ''subscription_id'' (to_string (js_prop item ''id''))) = Some p \<and>
         subscriptionData item = Inr d \<and>
         (\<forall>f. fixed_fields (f ++ map_of d)) \<and>
         tables s' = (tables s)(''subscription'' \<mapsto> rs') \<and>
         rs' = (case filter (\<lambda>r. p (row_fields r)) rs of
                  [] \<Rightarrow> rs @ [\<lparr>row_id = next_id s, row_fields = map_of d\<rparr>]
                | z # _ \<Rightarrow> map (\<lambda>x. if row_id x = row_id z
                                     then x\<lparr>row_fields := row_fields z ++ map_of d\<rparr>
                                     else x) rs) \<and>
         (\<forall>z zs. filter (\<lambda>r. p (row_fields r)) rs = z # zs \<longrightarrow>
            z\<lparr>row_fields := row_fields z ++ map_of d\<rparr> \<in> set rs' \<and>
            (\<forall>r \<in> set rs'. row_id r = row_id z \<longrightarrow>
               row_fields r = row_fields z ++ map_of d \<and> fixed_fields (row_fields r)))"
    using tab flt [unfolded id] d fixed found
    by (intro exI [of _ rs] exI [of _ p] exI [of _ d] exI [of _ ?rs'] conjI allI impI)
       (assumption | blast)+
next
  assume sig: "headers rq ''x_signature'' = Some (hs256 h (raw_body rq) (secret h))"
    and meta: "get_prop (data rq) ''meta'' = Inr meta"
    and ev: "get_prop meta ''event_name'' = Inr event_name"
    and known: "event_name \<in> set subscription_events"
    and answered: "webhook h rq t = (Inr resp, s')"
  let ?s0 = "t\<lparr>trace := trace t @ [LogInfo]\<rparr>"
  let ?block = "rethrow ''Failed to process subscription: ''
                  (upsert h ''subscription'' ''subscription_id'' subscriptionData
                     (js_prop (data rq) ''data''))"
  obtain r t1 where block: "?block ?s0 = (r, t1)"
    by (cases "?block ?s0")
  from answered block have "r = Inr () \<and> t1 = s'"
    unfolding webhook_accepted [OF sig meta ev known]
    by (cases r) (simp_all add: js_bind_def c_json_def ret_def)
  with block have "?block ?s0 = (Inr (), s')" by simp
  then show "upsert h ''subscription'' ''subscription_id'' subscriptionData
          (js_prop (data rq) ''data'') ?s0 = (Inr (), s')"
    by (simp add: rethrow_Inr_iff)
next
  assume fetch: "http_send h (sync_request h subscriptions_url) = Inr res"
    and items: "get_prop (json res) ''data'' = Inr (JArr xs)"
    and synced: "sync_subscriptions h t = (Inr u, s')"
  from synced fetch items
  have "forEach (\<lambda>item. rethrow ''Failed to process subscription: ''
                  (upsert h ''subscription'' ''subscription_id'' subscriptionData item)) xs
          (t\<lparr>trace := trace t @ [HttpSend ''GET'' subscriptions_url]\<rparr>) = (Inr u, s')"
    by (simp add: sync_subscriptions_def sync_stage_def js_bind_def send_run sync_request_def
          for_each_of_def)
  then show "forEach (upsert h ''subscription'' ''subscription_id'' subscriptionData) xs
          (t\<lparr>trace := trace t @ [HttpSend ''GET'' subscriptions_url]\<rparr>) = (Inr u, s')"
    by (rule forEach_rethrow)
qed

theorem subscription_upsert_fixed_fields_witness:
  "(\<exists>r. tables (snd (upsert (example_env no_vendor) ''subscription'' ''subscription_id''
                      subscriptionData subscription_1 stale_store)) ''subscription'' = Some [r] \<and>
        row_id r = 0 \<and> fixed_fields (row_fields r) \<and>
        row_fields r ''status'' = Some (JStr ''active''))
   \<and> upsert (example_env no_vendor) ''subscription'' ''subscription_id'' subscriptionData
         (js_prop (data created_request) ''data'')
         (stale_store\<lparr>trace := trace stale_store @ [LogInfo]\<rparr>) =
       (Inr (), snd (webhook (example_env no_vendor) created_request stale_store))
   \<and> forEach (upsert (example_env one_subscription_vendor) ''subscription'' ''subscription_id''
                 subscriptionData) [subscription_1]
         (stale_store\<lparr>trace := trace stale_store @ [HttpSend ''GET'' subscriptions_url]\<rparr>) =
       (Inr (), snd (sync_subscriptions (example_env one_subscription_vendor) stale_store))"
proof (intro conjI)
  let ?h = "example_env no_vendor"
  let ?run = "upsert ?h ''subscription'' ''subscription_id'' subscriptionData subscription_1
                stale_store"
  let ?old = "\<lparr>row_id = 0,
               row_fields = [''subscription_id'' \<mapsto> JStr ''1'',
                             ''metadata'' \<mapsto> JStr ''plan=old'',
                             ''cancel_at'' \<mapsto> JStr ''2024-05-01'',
                             ''status'' \<mapsto> JStr ''on_trial'']\<rparr>"
  have "fst ?run = Inr ()"
    by (simp add: run_defs subscription_1_def subscriptionData_def stale_store_def)
  then have went: "?run = (Inr (), snd ?run)"
    by (simp add: prod_eq_iff)
  have tab: "tables stale_store ''subscription'' = Some [?old]"
    by (simp add: stale_store_def)
  have flt: "filter_eval ?h (eq_filter ''subscription_id'' (to_string (js_prop subscription_1 ''id'')))
               = Some (\<lambda>flds. flds ''subscription_id'' = Some (JStr ''1''))"
    by (simp add: example_env_def example_filter_def eq_filter_def subscription_1_def)
  have d: "subscriptionData subscription_1 = Inr created_fields"
    by (simp add: subscription_1_def subscriptionData_def then_read_def get_prop_def nullish_def
          opt_chain_def js_or_def created_fields_def)
  from subscription_upsert_fixed_fields
         [where h = ?h and item = subscription_1 and s = stale_store and u = "()"
            and s' = "snd ?run", THEN conjunct1] went
  obtain rs p d' rs' where "tables stale_store ''subscription'' = Some rs"
    and "filter_eval ?h (eq_filter ''subscription_id'' (to_string (js_prop subscription_1 ''id'')))
           = Some p"
    and "subscriptionData subscription_1 = Inr d'"
    and fixed: "\<forall>f. fixed_fields (f ++ map_of d')"
    and after: "tables (snd ?run) = (tables stale_store)(''subscription'' \<mapsto> rs')"
    and table: "rs' = (case filter (\<lambda>r. p (row_fields r)) rs of
                  [] \<Rightarrow> rs @ [\<lparr>row_id = next_id stale_store, row_fields = map_of d'\<rparr>]
                | z # _ \<Rightarrow> map (\<lambda>x. if row_id x = row_id z
                                     then x\<lparr>row_fields := row_fields z ++ map_of d'\<rparr>
                                     else x) rs)"
    by blast
  with tab flt d have known: "rs = [?old]" "p = (\<lambda>flds. flds ''subscription_id'' = Some (JStr ''1''))"
    "d' = created_fields"
    by simp_all
  from table have "rs' = [?old\<lparr>row_fields := row_fields ?old ++ map_of created_fields\<rparr>]"
    unfolding known by simp
  with after fixed [unfolded known] show "\<exists>r. tables (snd ?run) ''subscription'' = Some [r] \<and>
        row_id r = 0 \<and> fixed_fields (row_fields r) \<and>
        row_fields r ''status'' = Some (JStr ''active'')"
    by (simp add: created_fields_def)
next
  let ?h = "example_env no_vendor"
  let ?ok = "\<lparr>code = 200, body = JObj [(''message'', JStr ''Data received successfully'')]\<rparr>"
  have sig: "headers created_request ''x_signature'' =
               Some (hs256 ?h (raw_body created_request) (secret ?h))"
    by (simp add: created_request_def example_env_def example_hs256_def)
  have meta: "get_prop (data created_request) ''meta'' =
                Inr (JObj [(''event_name'', JStr ''subscription_created'')])"
    by (simp add: created_request_def created_data_def get_prop_def nullish_def)
  have ev: "get_prop (JObj [(''event_name'', JStr ''subscription_created'')]) ''event_name'' =
              Inr (JStr ''subscription_created'')"
    by (simp add: get_prop_def nullish_def)
  have known: "JStr ''subscription_created'' \<in> set subscription_events"
    by (simp add: subscription_events_def)
  have "fst (webhook ?h created_request stale_store) = Inr ?ok"
    unfolding webhook_accepted [OF sig meta ev known]
    by (simp add: run_defs created_request_def created_data_def subscriptionData_def
          stale_store_def)
  then have answered: "webhook ?h created_request stale_store =
                         (Inr ?ok, snd (webhook ?h created_request stale_store))"
    by (simp add: prod_eq_iff)
  from subscription_upsert_fixed_fields
         [where h = ?h and rq = created_request and t = stale_store and resp = ?ok
            and s' = "snd (webhook ?h created_request stale_store)"
            and meta = "JObj [(''event_name'', JStr ''subscription_created'')]"
            and event_name = "JStr ''subscription_created''",
          THEN conjunct2, THEN conjunct1]
       sig meta ev known answered
  show "upsert ?h ''subscription'' ''subscription_id'' subscriptionData
          (js_prop (data created_request) ''data'')
          (stale_store\<lparr>trace := trace stale_store @ [LogInfo]\<rparr>) =
        (Inr (), snd (webhook ?h created_request stale_store))"
    by blast
next
  let ?h = "example_env one_subscription_vendor"
  have fetch: "http_send ?h (sync_request ?h subscriptions_url) =
      Inr \<lparr>status = 200, json = JObj [(''data'', JArr [subscription_1])]\<rparr>"
    by (simp add: example_env_def one_subscription_vendor_def list_response_def sync_request_def)
  have items: "get_prop (json \<lparr>status = 200, json = JObj [(''data'', JArr [subscription_1])]\<rparr>)
      ''data'' = Inr (JArr [subscription_1])"
    by (simp add: get_prop_def nullish_def)
  have "fst (sync_subscriptions ?h stale_store) = Inr ()"
    by (simp add: sync_subscriptions_def sync_stage_def for_each_of_def run_defs
          one_subscription_vendor_def list_response_def subscription_1_def subscriptionData_def
          stale_store_def)
  then have synced: "sync_subscriptions ?h stale_store =
                       (Inr (), snd (sync_subscriptions ?h stale_store))"
    by (simp add: prod_eq_iff)
  from subscription_upsert_fixed_fields
         [where h = ?h and t = stale_store and u = "()" and xs = "[subscription_1]"
            and s' = "snd (sync_subscriptions ?h stale_store)"
            and res = "\<lparr>status = 200, json = JObj [(''data'', JArr [subscription_1])]\<rparr>",
          THEN conjunct2, THEN conjunct2]
       fetch items synced
  show "forEach (upsert ?h ''subscription'' ''subscription_id'' subscriptionData) [subscription_1]
          (stale_store\<lparr>trace := trace stale_store @ [HttpSend ''GET'' subscriptions_url]\<rparr>) =
        (Inr (), snd (sync_subscriptions ?h stale_store))"
    by blast
qed

text \<open>
  Claim C2. In a store with at most one subscription record for a
  subscription id, a validly signed subscription event for that id is
  answered with status 200 and leaves exactly one record for it: the record
  that was there, with the event's field table \<open>d\<close> loaded over its fields, or
  a new record holding \<open>d\<close> when there was none. Delivered a second time, the
  same event is answered again; this delivery looks the record up and saves
  it (the trace gains the log line, the lookup and the save, and no creation
  of a record), and the tables are as the first delivery left them, so the
  record is still the only one and holds the event's values. The deliveries
  are one after the other. The hypotheses say that the id is a string, that
  the host reads the filter of line 66 as the comparison it spells, that the
  collection exists with distinct row ids, and that the host accepts the one
  field table that the delivery saves.
\<close>

theorem webhook_replay_keeps_one_record:
  assumes sig: "headers rq ''x_signature'' = Some (hs256 h (raw_body rq) (secret h))"
    and meta: "get_prop (data rq) ''meta'' = Inr meta"
    and ev: "get_prop meta ''event_name'' = Inr event_name"
    and known: "event_name \<in> set subscription_events"
    and sid: "get_prop (js_prop (data rq) ''data'') ''id'' = Inr (JStr sid)"
    and d: "subscriptionData (js_prop (data rq) ''data'') = Inr d"
    and host: "host_filter_eq h ''subscription_id'' sid"
    and tab: "tables s ''subscription'' = Some rs"
    and ids: "ids_ok ''subscription'' s"
    and inv: "length (rows_with ''subscription'' ''subscription_id'' (JStr sid) s) \<le> 1"
    and valid: "validate h ''subscription''
                  (saved_fields (\<lambda>f. f ''subscription_id'' = Some (JStr sid)) d rs) = None"
  shows "\<exists>s1 s2.
           webhook h rq s =
             (Inr \<lparr>code = 200, body = JObj [(''message'', JStr ''Data received successfully'')]\<rparr>,
              s1) \<and>
           tables s1 =
             (tables s)(''subscription'' \<mapsto>
                (case rows_with ''subscription'' ''subscription_id'' (JStr sid) s of
                   [] \<Rightarrow> rs @ [\<lparr>row_id = next_id s, row_fields = map_of d\<rparr>]
                 | z # _ \<Rightarrow> map (\<lambda>x. if row_id x = row_id z
                                      then x\<lparr>row_fields := row_fields z ++ map_of d\<rparr>
                                      else x) rs)) \<and>
           trace s1 = trace s @
             LogInfo # DbFind ''subscription'' (eq_filter ''subscription_id'' sid) #
             (if rows_with ''subscription'' ''subscription_id'' (JStr sid) s = []
              then [DbFindCollection ''subscription'', DbSave ''subscription'']
              else [DbSave ''subscription'']) \<and>
           rows_with ''subscription'' ''subscription_id'' (JStr sid) s1 =
             (case rows_with ''subscription'' ''subscription_id'' (JStr sid) s of
                [] \<Rightarrow> [\<lparr>row_id = next_id s, row_fields = map_of d\<rparr>]
              | z # _ \<Rightarrow> [z\<lparr>row_fields := row_fields z ++ map_of d\<rparr>]) \<and>
           length (rows_with ''subscription'' ''subscription_id'' (JStr sid) s1) = 1 \<and>
           table_size ''subscription'' s1 =
             (if rows_with ''subscription'' ''subscription_id'' (JStr sid) s = []
              then Suc (table_size ''subscription'' s) else table_size ''subscription'' s) \<and>
           webhook h rq s1 =
             (Inr \<lparr>code = 200, body = JObj [(''message'', JStr ''Data received successfully'')]\<rparr>,
              s2) \<and>
           tables s2 = tables s1 \<and> next_id s2 = next_id s1 \<and>
           trace s2 = trace s1 @
             [LogInfo, DbFind ''subscription'' (eq_filter ''subscription_id'' sid),
              DbSave ''subscription''] \<and>
           length (rows_with ''subscription'' ''subscription_id'' (JStr sid) s2) = 1 \<and>
           table_size ''subscription'' s2 = table_size ''subscription'' s1"
proof -
  let ?ok = "\<lparr>code = 200, body = JObj [(''message'', JStr ''Data received successfully'')]\<rparr>"
  let ?p = "\<lambda>f::fields. f ''subscription_id'' = Some (JStr sid)"
  let ?P = "\<lambda>r. row_fields r ''subscription_id'' = Some (JStr sid)"
  let ?rows = "rows_with ''subscription'' ''subscription_id'' (JStr sid)"
  let ?rs1 = "upserted ?p d (next_id s) rs"
  let ?s1 = "s\<lparr>trace := trace s @
                   LogInfo # DbFind ''subscription'' (eq_filter ''subscription_id'' sid) #
                   (if ?rows s = []
                    then [DbFindCollection ''subscription'', DbSave ''subscription'']
                    else [DbSave ''subscription'']),
              tables := (tables s)(''subscription'' \<mapsto> ?rs1),
              next_id := (if ?rows s = [] then Suc (next_id s) else next_id s)\<rparr>"
  from subscriptionData_Inr [OF sid] d have key: "map_of d ''subscription_id'' = Some (JStr sid)"
    by auto
  from ids tab have dist: "distinct (map row_id rs)" and old: "\<forall>r \<in> set rs. row_id r < next_id s"
    by (simp_all add: ids_ok_def)
  have rows: "?rows s = filter ?P rs"
    using tab by (simp add: rows_with_def)
  have first: "webhook h rq s = (Inr ?ok, ?s1)"
    by (rule webhook_delivery [OF sig meta ev known sid host d tab valid])
  have tab1: "tables ?s1 ''subscription'' = Some ?rs1"
    by simp
  have table: "?rs1 = (case ?rows s of
                     [] \<Rightarrow> rs @ [\<lparr>row_id = next_id s, row_fields = map_of d\<rparr>]
                   | z # _ \<Rightarrow> map (\<lambda>x. if row_id x = row_id z
                                        then x\<lparr>row_fields := row_fields z ++ map_of d\<rparr>
                                        else x) rs)"
    by (simp add: rows upserted_def)
  have after: "?rows ?s1 = filter ?P ?rs1"
    by (simp add: rows_with_def)
  have filt1: "filter ?P ?rs1 = (case filter ?P rs of
                [] \<Rightarrow> [\<lparr>row_id = next_id s, row_fields = map_of d\<rparr>]
              | z # _ \<Rightarrow> [z\<lparr>row_fields := row_fields z ++ map_of d\<rparr>])"
  proof (cases "filter ?P rs")
    case Nil
    with upserted_rows [OF dist key, of "next_id s"] show ?thesis
      by simp
  next
    case (Cons z zs)
    with inv rows have "zs = []" by simp
    with Cons upserted_rows [OF dist key, of "next_id s"] show ?thesis
      by simp
  qed
  have rows1: "?rows ?s1 = (case ?rows s of
                [] \<Rightarrow> [\<lparr>row_id = next_id s, row_fields = map_of d\<rparr>]
              | z # _ \<Rightarrow> [z\<lparr>row_fields := row_fields z ++ map_of d\<rparr>])"
  proof -
    have "?rows ?s1 = filter ?P ?rs1" by (rule after)
    also note filt1
    finally show ?thesis by (simp only: rows)
  qed
  then have one: "length (?rows ?s1) = 1"
    by (simp split: list.splits)
  have size1: "table_size ''subscription'' ?s1 =
             (if ?rows s = [] then Suc (table_size ''subscription'' s)
              else table_size ''subscription'' s)"
    using tab by (simp add: table_size_def rows upserted_length)
  have dist1: "distinct (map row_id ?rs1)"
    using upserted_ids [OF dist old, of ?p d] by simp
  obtain r1 g where found1: "filter (\<lambda>r. ?p (row_fields r)) ?rs1 = [r1]"
    and loaded: "row_fields r1 = g ++ map_of d"
  proof (cases "filter ?P rs")
    case Nil
    with filt1 have "filter (\<lambda>r. ?p (row_fields r)) ?rs1 =
                       [\<lparr>row_id = next_id s, row_fields = map_of d\<rparr>]"
      by simp
    moreover have "row_fields \<lparr>row_id = next_id s, row_fields = map_of d\<rparr> = Map.empty ++ map_of d"
      by simp
    ultimately show ?thesis by (rule that)
  next
    case (Cons z zs)
    with filt1 have "filter (\<lambda>r. ?p (row_fields r)) ?rs1 =
                       [z\<lparr>row_fields := row_fields z ++ map_of d\<rparr>]"
      by simp
    moreover have "row_fields (z\<lparr>row_fields := row_fields z ++ map_of d\<rparr>) =
                     row_fields z ++ map_of d"
      by simp
    ultimately show ?thesis by (rule that)
  qed
  have again: "upserted ?p d n ?rs1 = ?rs1" for n
    using dist1 found1 loaded by (rule upserted_again)
  have same_fields: "saved_fields ?p d ?rs1 = saved_fields ?p d rs"
  proof -
    have "saved_fields ?p d ?rs1 = row_fields r1 ++ map_of d"
      using found1 by (simp add: saved_fields_def)
    also have "\<dots> = row_fields r1"
      unfolding loaded by (rule ext) (simp add: map_add_def split: option.splits)
    also have "row_fields r1 = saved_fields ?p d rs"
      using found1 filt1
      by (cases "filter ?P rs") (auto simp: saved_fields_def)
    finally show ?thesis .
  qed
  have valid1: "validate h ''subscription'' (saved_fields ?p d ?rs1) = None"
    using valid by (simp only: same_fields)
  have some1: "?rows ?s1 \<noteq> []"
    using one by auto
  let ?s2 = "?s1\<lparr>trace := trace ?s1 @
                   [LogInfo, DbFind ''subscription'' (eq_filter ''subscription_id'' sid),
                    DbSave ''subscription'']\<rparr>"
  have "webhook h rq ?s1 =
          (Inr ?ok,
           ?s1\<lparr>trace := trace ?s1 @
                   LogInfo # DbFind ''subscription'' (eq_filter ''subscription_id'' sid) #
                   (if ?rows ?s1 = []
                    then [DbFindCollection ''subscription'', DbSave ''subscription'']
                    else [DbSave ''subscription'']),
              tables := (tables ?s1)(''subscription'' \<mapsto> upserted ?p d (next_id ?s1) ?rs1),
              next_id := (if ?rows ?s1 = [] then Suc (next_id ?s1) else next_id ?s1)\<rparr>)"
    by (rule webhook_delivery [OF sig meta ev known sid host d tab1 valid1])
  also have "\<dots> = (Inr ?ok, ?s2)"
    using some1 by (simp add: again)
  finally have second: "webhook h rq ?s1 = (Inr ?ok, ?s2)" .
  have "tables ?s2 = tables ?s1" "next_id ?s2 = next_id ?s1"
    "trace ?s2 = trace ?s1 @
       [LogInfo, DbFind ''subscription'' (eq_filter ''subscription_id'' sid),
        DbSave ''subscription'']"
    by simp_all
  moreover have "length (?rows ?s2) = 1"
    using one by (simp add: rows_with_def)
  moreover have "table_size ''subscription'' ?s2 = table_size ''subscription'' ?s1"
    by (simp add: table_size_def)
  moreover have "tables ?s1 =
             (tables s)(''subscription'' \<mapsto>
                (case ?rows s of
                   [] \<Rightarrow> rs @ [\<lparr>row_id = next_id s, row_fields = map_of d\<rparr>]
                 | z # _ \<Rightarrow> map (\<lambda>x. if row_id x = row_id z
                                      then x\<lparr>row_fields := row_fields z ++ map_of d\<rparr>
                                      else x) rs))"
    using table by simp
  moreover have "trace ?s1 = trace s @
             LogInfo # DbFind ''subscription'' (eq_filter ''subscription_id'' sid) #
             (if ?rows s = []
              then [DbFindCollection ''subscription'', DbSave ''subscription'']
              else [DbSave ''subscription''])"
    by simp
  ultimately show ?thesis
    using first rows1 one size1 second
    by (intro exI [of _ ?s1] exI [of _ ?s2] conjI)
qed

theorem webhook_replay_keeps_one_record_witness:
  "host_filter_eq (example_env no_vendor) ''subscription_id'' ''1''
   \<and> subscriptionData (js_prop (data created_request) ''data'') = Inr created_fields
   \<and> length (rows_with ''subscription'' ''subscription_id'' (JStr ''1'') stale_store) \<le> 1
   \<and> (\<exists>s1 s2.
         webhook (example_env no_vendor) created_request stale_store =
           (Inr \<lparr>code = 200, body = JObj [(''message'', JStr ''Data received successfully'')]\<rparr>,
            s1) \<and>
         (\<exists>r. rows_with ''subscription'' ''subscription_id'' (JStr ''1'') s1 = [r] \<and>
              row_id r = 0 \<and>
              row_fields r ''status'' = Some (JStr ''active'') \<and>
              row_fields r ''metadata'' = Some (JStr ''{}'') \<and>
              row_fields r ''cancel_at'' = Some (JStr [])) \<and>
         table_size ''subscription'' s1 = 1 \<and>
         webhook (example_env no_vendor) created_request s1 =
           (Inr \<lparr>code = 200, body = JObj [(''message'', JStr ''Data received successfully'')]\<rparr>,
            s2) \<and>
         tables s2 = tables s1 \<and>
         trace s2 = trace s1 @
           [LogInfo, DbFind ''subscription'' (eq_filter ''subscription_id'' ''1''),
            DbSave ''subscription''])
   \<and> (\<exists>s1 s2.
         webhook (example_env no_vendor) created_request empty_store =
           (Inr \<lparr>code = 200, body = JObj [(''message'', JStr ''Data received successfully'')]\<rparr>,
            s1) \<and>
         rows_with ''subscription'' ''subscription_id'' (JStr ''1'') s1 =
           [\<lparr>row_id = 0, row_fields = map_of created_fields\<rparr>] \<and>
         table_size ''subscription'' s1 = 1 \<and>
         webhook (example_env no_vendor) created_request s1 =
           (Inr \<lparr>code = 200, body = JObj [(''message'', JStr ''Data received successfully'')]\<rparr>,
            s2) \<and>
         tables s2 = tables s1 \<and>
         table_size ''subscription'' s2 = 1)"
proof -
  let ?h = "example_env no_vendor"
  let ?old = "\<lparr>row_id = 0,
               row_fields = [''subscription_id'' \<mapsto> JStr ''1'',
                             ''metadata'' \<mapsto> JStr ''plan=old'',
                             ''cancel_at'' \<mapsto> JStr ''2024-05-01'',
                             ''status'' \<mapsto> JStr ''on_trial'']\<rparr>"
  have sig: "headers created_request ''x_signature'' =
               Some (hs256 ?h (raw_body created_request) (secret ?h))"
    by (simp add: created_request_def example_env_def example_hs256_def)
  have meta: "get_prop (data created_request) ''meta'' =
                Inr (JObj [(''event_name'', JStr ''subscription_created'')])"
    by (simp add: created_request_def created_data_def get_prop_def nullish_def)
  have ev: "get_prop (JObj [(''event_name'', JStr ''subscription_created'')]) ''event_name'' =
              Inr (JStr ''subscription_created'')"
    by (simp add: get_prop_def nullish_def)
  have known: "JStr ''subscription_created'' \<in> set subscription_events"
    by (simp add: subscription_events_def)
  have sid: "get_prop (js_prop (data created_request) ''data'') ''id'' = Inr (JStr ''1'')"
    by (simp add: created_request_def created_data_def get_prop_def nullish_def)
  have d: "subscriptionData (js_prop (data created_request) ''data'') = Inr created_fields"
    by (simp add: created_request_def created_data_def subscriptionData_def then_read_def
          get_prop_def nullish_def opt_chain_def js_or_def created_fields_def)
  have host: "host_filter_eq ?h ''subscription_id'' ''1''"
    by (simp add: host_filter_eq_def example_env_def example_filter_def eq_filter_def)
  have valid: "validate ?h ''subscription'' f = None" for f
    by (simp add: example_env_def)
  have tab: "tables stale_store ''subscription'' = Some [?old]"
    by (simp add: stale_store_def)
  have ids: "ids_ok ''subscription'' stale_store"
    by (simp add: ids_ok_def stale_store_def)
  have rows: "rows_with ''subscription'' ''subscription_id'' (JStr ''1'') stale_store = [?old]"
    by (simp add: rows_with_def stale_store_def)
  then have inv: "length (rows_with ''subscription'' ''subscription_id'' (JStr ''1'') stale_store) \<le> 1"
    by simp
  have size: "table_size ''subscription'' stale_store = 1"
    by (simp add: table_size_def stale_store_def)
  have tab0: "tables empty_store ''subscription'' = Some []"
    by (simp add: empty_store_def)
  have ids0: "ids_ok ''subscription'' empty_store"
    by (simp add: ids_ok_def empty_store_def)
  have rows0: "rows_with ''subscription'' ''subscription_id'' (JStr ''1'') empty_store = []"
    by (simp add: rows_with_def empty_store_def)
  then have inv0: "length (rows_with ''subscription'' ''subscription_id'' (JStr ''1'') empty_store) \<le> 1"
    by simp
  have size0: "table_size ''subscription'' empty_store = 0" "next_id empty_store = 0"
    by (simp_all add: table_size_def empty_store_def)
  from webhook_replay_keeps_one_record [OF sig meta ev known sid d host tab ids inv valid]
  have stale: "\<exists>s1 s2.
         webhook ?h created_request stale_store =
           (Inr \<lparr>code = 200, body = JObj [(''message'', JStr ''Data received successfully'')]\<rparr>,
            s1) \<and>
         (\<exists>r. rows_with ''subscription'' ''subscription_id'' (JStr ''1'') s1 = [r] \<and>
              row_id r = 0 \<and>
              row_fields r ''status'' = Some (JStr ''active'') \<and>
              row_fields r ''metadata'' = Some (JStr ''{}'') \<and>
              row_fields r ''cancel_at'' = Some (JStr [])) \<and>
         table_size ''subscription'' s1 = 1 \<and>
         webhook ?h created_request s1 =
           (Inr \<lparr>code = 200, body = JObj [(''message'', JStr ''Data received successfully'')]\<rparr>,
            s2) \<and>
         tables s2 = tables s1 \<and>
         trace s2 = trace s1 @
           [LogInfo, DbFind ''subscription'' (eq_filter ''subscription_id'' ''1''),
            DbSave ''subscription'']"
    unfolding rows size by (auto simp: created_fields_def)
  from webhook_replay_keeps_one_record [OF sig meta ev known sid d host tab0 ids0 inv0 valid]
  have fresh: "\<exists>s1 s2.
         webhook ?h created_request empty_store =
           (Inr \<lparr>code = 200, body = JObj [(''message'', JStr ''Data received successfully'')]\<rparr>,
            s1) \<and>
         rows_with ''subscription'' ''subscription_id'' (JStr ''1'') s1 =
           [\<lparr>row_id = 0, row_fields = map_of created_fields\<rparr>] \<and>
         table_size ''subscription'' s1 = 1 \<and>
         webhook ?h created_request s1 =
           (Inr \<lparr>code = 200, body = JObj [(''message'', JStr ''Data received successfully'')]\<rparr>,
            s2) \<and>
         tables s2 = tables s1 \<and>
         table_size ''subscription'' s2 = 1"
    unfolding rows0 size0 by auto
  from host d inv stale fresh show ?thesis by blast
qed

section \<open>The checkout handler and the customer records\<close>

text \<open>
  Claim C3. A call of POST /create-checkout-session by an authenticated user
  that returns a response: when the store has no customer record with the
  user's id, the call appends exactly one record to the customer table,
  holding the user's id and the id that the vendor's answer names, and the
  trace gains exactly one customer-creation call; when the store has such a
  record, the customer table is as before and no customer-creation call is
  made.
\<close>

theorem checkout_creates_customer_once:
  assumes auth: "findAuthRecordByToken h (auth_token rq) = Inr u"
    and host: "host_filter_eq h ''user_id'' (user_id u)"
    and tab: "tables s ''customer'' = Some rs"
    and ok: "create_checkout_session h rq s = (Inr resp, s')"
  shows "(rows_with ''customer'' ''user_id'' (JStr (user_id u)) s = [] \<longrightarrow>
            (\<exists>cid vr d. http_send h (customer_request h u) = Inr vr \<and>
               get_prop (json vr) ''data'' = Inr d \<and> get_prop d ''id'' = Inr cid \<and>
               tables s' ''customer'' =
                 Some (rs @ [\<lparr>row_id = next_id s,
                              row_fields = map_of [(''lemonsqueezy_customer_id'', cid),
                                                   (''user_id'', JStr (user_id u))]\<rparr>])) \<and>
            customer_calls s' = customer_calls s + 1)
       \<and> (rows_with ''customer'' ''user_id'' (JStr (user_id u)) s \<noteq> [] \<longrightarrow>
            tables s' ''customer'' = Some rs \<and> customer_calls s' = customer_calls s)"
proof -
  let ?p = "\<lambda>f::fields. f ''user_id'' = Some (JStr (user_id u))"
  let ?s0 = "s\<lparr>trace := trace s @ [DbFindAuth]\<rparr>"
  from host have flt: "filter_eval h (eq_filter ''user_id'' (user_id u)) = Some ?p"
    by (simp add: host_filter_eq_def)
  from tab have tab0: "tables ?s0 ''customer'' = Some rs" by simp
  have rows: "rows_with ''customer'' ''user_id'' (JStr (user_id u)) s =
                filter (\<lambda>r. ?p (row_fields r)) rs"
    using tab by (simp add: rows_with_def)
  have calls0: "customer_calls ?s0 = customer_calls s"
    by (simp add: customer_calls_def)
  obtain r1 s1 where res: "resolve_customer h u ?s0 = (r1, s1)"
    by (cases "resolve_customer h u ?s0")
  from ok res obtain cid where r1: "r1 = Inr cid"
    and fwd: "forward_checkout h rq u s1 = (Inr resp, s')"
    by (cases r1) (simp_all add: checkout_authorized [OF auth] js_bind_def)
  from forward_checkout_frame [OF fwd]
  have frame: "tables s' = tables s1" "customer_calls s' = customer_calls s1"
    by simp_all
  show ?thesis
  proof (intro conjI impI)
    assume "rows_with ''customer'' ''user_id'' (JStr (user_id u)) s = []"
    with rows have none: "filter (\<lambda>r. ?p (row_fields r)) rs = []" by simp
    from resolve_customer_created [OF res [unfolded r1] tab0 flt none]
    obtain vr d where "http_send h (customer_request h u) = Inr vr"
      "get_prop (json vr) ''data'' = Inr d" "get_prop d ''id'' = Inr cid"
      and tab1: "tables s1 = (tables ?s0)(''customer'' \<mapsto> rs @
            [\<lparr>row_id = next_id ?s0,
              row_fields = map_of [(''lemonsqueezy_customer_id'', cid),
                                   (''user_id'', JStr (user_id u))]\<rparr>])"
      and tr1: "trace s1 = trace ?s0 @
            [DbFind ''customer'' (eq_filter ''user_id'' (user_id u)),
             HttpSend ''POST'' ''https://api.lemonsqueezy.com/v1/customers'',
             DbFindCollection ''customer'', DbSave ''customer'']"
      by blast
    then show "\<exists>cid vr d. http_send h (customer_request h u) = Inr vr \<and>
               get_prop (json vr) ''data'' = Inr d \<and> get_prop d ''id'' = Inr cid \<and>
               tables s' ''customer'' =
                 Some (rs @ [\<lparr>row_id = next_id s,
                              row_fields = map_of [(''lemonsqueezy_customer_id'', cid),
                                                   (''user_id'', JStr (user_id u))]\<rparr>])"
      using frame(1) by auto
    from tr1 show "customer_calls s' = customer_calls s + 1"
      using frame(2) by (simp add: customer_calls_def)
  next
    assume "rows_with ''customer'' ''user_id'' (JStr (user_id u)) s \<noteq> []"
    with rows have some: "filter (\<lambda>r. ?p (row_fields r)) rs \<noteq> []" by simp
    from resolve_customer_found [OF tab0 flt some] res
    have s1: "s1 = ?s0\<lparr>trace := trace ?s0 @
                [DbFind ''customer'' (eq_filter ''user_id'' (user_id u))]\<rparr>"
      by auto
    from s1 show "tables s' ''customer'' = Some rs"
      using frame(1) tab by simp
    from s1 show "customer_calls s' = customer_calls s"
      using frame(2) by (simp add: customer_calls_def)
  qed
qed

theorem checkout_creates_customer_once_witness:
  "findAuthRecordByToken (example_env shop_vendor) (auth_token checkout_call) = Inr ada
   \<and> host_filter_eq (example_env shop_vendor) ''user_id'' (user_id ada)
   \<and> rows_with ''customer'' ''user_id'' (JStr (user_id ada)) empty_store = []
   \<and> fst (create_checkout_session (example_env shop_vendor) checkout_call empty_store) =
        Inr \<lparr>code = 201, body = JObj [(''data'', JObj [(''type'', JStr ''checkouts''),
                                                        (''id'', JStr ''chk-1'')])]\<rparr>
   \<and> tables (snd (create_checkout_session (example_env shop_vendor) checkout_call empty_store))
        ''customer'' = Some [customer_row 0 (JStr ''5511'') ada]
   \<and> customer_calls
        (snd (create_checkout_session (example_env shop_vendor) checkout_call empty_store)) = 1
   \<and> rows_with ''customer'' ''user_id'' (JStr (user_id ada)) known_customer_store \<noteq> []
   \<and> tables (snd (create_checkout_session (example_env shop_vendor) checkout_call
                     known_customer_store)) ''customer'' =
        tables known_customer_store ''customer''
   \<and> customer_calls (snd (create_checkout_session (example_env shop_vendor) checkout_call
                             known_customer_store)) = 0"
proof -
  let ?h = "example_env shop_vendor"
  let ?new = "create_checkout_session ?h checkout_call empty_store"
  let ?old = "create_checkout_session ?h checkout_call known_customer_store"
  let ?resp = "\<lparr>code = 201, body = JObj [(''data'', JObj [(''type'', JStr ''checkouts''),
                                                       (''id'', JStr ''chk-1'')])]\<rparr>"
  have auth: "findAuthRecordByToken ?h (auth_token checkout_call) = Inr ada"
    by (simp add: example_env_def example_auth_def auth_token_def header_def js_or_def
          checkout_call_def ada_def)
  have host: "host_filter_eq ?h ''user_id'' (user_id ada)"
    by (simp add: host_filter_eq_def example_env_def example_filter_def eq_filter_def ada_def)
  have tab: "tables empty_store ''customer'' = Some []"
    by (simp add: empty_store_def)
  have none: "rows_with ''customer'' ''user_id'' (JStr (user_id ada)) empty_store = []"
    by (simp add: rows_with_def empty_store_def)
  have calls: "customer_calls empty_store = 0"
    by (simp add: customer_calls_def empty_store_def)
  have "fst ?new = Inr ?resp"
    by (simp add: run_defs checkout_defs shop_vendor_def)
  then have ok: "?new = (Inr ?resp, snd ?new)"
    by (simp add: prod_eq_iff)
  have vendor: "http_send ?h (customer_request ?h ada) =
      Inr \<lparr>status = 201,
           json = JObj [(''data'', JObj [(''type'', JStr ''customers''),
                                         (''id'', JStr ''5511'')])]\<rparr>"
    by (simp add: example_env_def shop_vendor_def customer_request_def)
  from checkout_creates_customer_once [OF auth host tab ok] none
  obtain cid vr d where "http_send ?h (customer_request ?h ada) = Inr vr"
    "get_prop (json vr) ''data'' = Inr d" "get_prop d ''id'' = Inr cid"
    and row: "tables (snd ?new) ''customer'' =
          Some ([] @ [\<lparr>row_id = next_id empty_store,
                        row_fields = map_of [(''lemonsqueezy_customer_id'', cid),
                                             (''user_id'', JStr (user_id ada))]\<rparr>])"
    and one: "customer_calls (snd ?new) = customer_calls empty_store + 1"
    by blast
  with vendor have "cid = JStr ''5511''"
    by (auto simp: get_prop_def nullish_def)
  with row have created: "tables (snd ?new) ''customer'' = Some [customer_row 0 (JStr ''5511'') ada]"
    by (simp add: customer_row_def empty_store_def)
  have tab2: "tables known_customer_store ''customer'' =
      Some [\<lparr>row_id = 0,
              row_fields = [''lemonsqueezy_customer_id'' \<mapsto> JStr ''5511'',
                            ''user_id'' \<mapsto> JStr ''u1'']\<rparr>]"
    by (simp add: known_customer_store_def)
  have some: "rows_with ''customer'' ''user_id'' (JStr (user_id ada)) known_customer_store \<noteq> []"
    by (simp add: rows_with_def known_customer_store_def ada_def)
  have calls2: "customer_calls known_customer_store = 0"
    by (simp add: customer_calls_def known_customer_store_def)
  have "fst ?old = Inr ?resp"
    by (simp add: run_defs checkout_defs shop_vendor_def known_customer_store_def)
  then have ok2: "?old = (Inr ?resp, snd ?old)"
    by (simp add: prod_eq_iff)
  from checkout_creates_customer_once [OF auth host tab2 ok2] some
  have kept: "tables (snd ?old) ''customer'' = tables known_customer_store ''customer''"
    and zero: "customer_calls (snd ?old) = customer_calls known_customer_store"
    by (simp_all add: tab2)
  from auth host none \<open>fst ?new = Inr ?resp\<close> created one calls some kept zero calls2
  show ?thesis by simp
qed

text \<open>
  Claim C8. No handler changes a customer record. The webhook, the
  synchronization and the portal handler leave the customer table as it is.
  The checkout handler keeps every row and appends at most one; it appends
  none when a record with the caller's user id exists; and after a call that
  appended one, the next call of the same user appends none, so a customer
  record is created at most once per user.
\<close>

theorem customer_records_never_updated:
  "tables (snd (webhook h rq s)) ''customer'' = tables s ''customer''
   \<and> tables (snd (manual_sync h s)) ''customer'' = tables s ''customer''
   \<and> tables (snd (create_portal_link h rq s)) ''customer'' = tables s ''customer''
   \<and> (tables s ''customer'' = Some rs \<longrightarrow>
        (\<exists>new. tables (snd (create_checkout_session h rq s)) ''customer'' = Some (rs @ new) \<and>
               length new \<le> 1))
   \<and> (findAuthRecordByToken h (auth_token rq) = Inr u \<and>
       host_filter_eq h ''user_id'' (user_id u) \<and>
       rows_with ''customer'' ''user_id'' (JStr (user_id u)) s \<noteq> [] \<longrightarrow>
        tables (snd (create_checkout_session h rq s)) ''customer'' = tables s ''customer'')
   \<and> (findAuthRecordByToken h (auth_token rq) = Inr u \<and>
       findAuthRecordByToken h (auth_token rq2) = Inr u \<and>
       host_filter_eq h ''user_id'' (user_id u) \<and>
       tables (snd (create_checkout_session h rq s)) ''customer'' \<noteq> tables s ''customer'' \<longrightarrow>
        tables (snd (create_checkout_session h rq2 (snd (create_checkout_session h rq s))))
          ''customer'' =
        tables (snd (create_checkout_session h rq s)) ''customer'')"
proof (intro conjI impI; (elim conjE)?)
  show "tables (snd (webhook h rq s)) ''customer'' = tables s ''customer''"
    using keeps_webhook by (simp add: keeps_def)
  show "tables (snd (manual_sync h s)) ''customer'' = tables s ''customer''"
    using keeps_manual_sync by (simp add: keeps_def)
  show "tables (snd (create_portal_link h rq s)) ''customer'' = tables s ''customer''"
    using keeps_create_portal_link by (simp add: keeps_def)
next
  assume tab: "tables s ''customer'' = Some rs"
  show "\<exists>new. tables (snd (create_checkout_session h rq s)) ''customer'' = Some (rs @ new) \<and>
          length new \<le> 1"
  proof (cases "findAuthRecordByToken h (auth_token rq)")
    case (Inl e)
    with tab have "tables (snd (create_checkout_session h rq s)) ''customer'' = Some (rs @ [])"
      by (simp add: checkout_unauthorized)
    then show ?thesis by (intro exI [of _ "[]"]) simp
  next
    case (Inr v)
    from checkout_customer_table [OF Inr tab] show ?thesis
    proof
      assume "tables (snd (create_checkout_session h rq s)) ''customer'' = Some rs"
      then show ?thesis by (intro exI [of _ "[]"]) simp
    next
      assume "\<exists>p cid. filter_eval h (eq_filter ''user_id'' (user_id v)) = Some p \<and>
            filter (\<lambda>r. p (row_fields r)) rs = [] \<and>
            tables (snd (create_checkout_session h rq s)) ''customer'' =
              Some (rs @ [customer_row (next_id s) cid v])"
      then obtain cid where
        "tables (snd (create_checkout_session h rq s)) ''customer'' =
           Some (rs @ [customer_row (next_id s) cid v])"
        by blast
      then show ?thesis by (intro exI [of _ "[customer_row (next_id s) cid v]"]) simp
    qed
  qed
next
  assume auth: "findAuthRecordByToken h (auth_token rq) = Inr u"
    and host: "host_filter_eq h ''user_id'' (user_id u)"
    and some: "rows_with ''customer'' ''user_id'' (JStr (user_id u)) s \<noteq> []"
  from some obtain rs where tab: "tables s ''customer'' = Some rs"
    and hit: "filter (\<lambda>r. row_fields r ''user_id'' = Some (JStr (user_id u))) rs \<noteq> []"
    by (auto simp: rows_with_def split: option.splits)
  from checkout_customer_table [OF auth tab] host hit tab
  show "tables (snd (create_checkout_session h rq s)) ''customer'' = tables s ''customer''"
    by (auto simp: host_filter_eq_def)
next
  let ?s1 = "snd (create_checkout_session h rq s)"
  assume auth: "findAuthRecordByToken h (auth_token rq) = Inr u"
    and auth2: "findAuthRecordByToken h (auth_token rq2) = Inr u"
    and host: "host_filter_eq h ''user_id'' (user_id u)"
    and changed: "tables ?s1 ''customer'' \<noteq> tables s ''customer''"
  show "tables (snd (create_checkout_session h rq2 ?s1)) ''customer'' = tables ?s1 ''customer''"
  proof (cases "tables s ''customer''")
    case None
    from None auth have "tables ?s1 ''customer'' = None"
      by (auto simp: checkout_authorized resolve_customer_def js_bind_def
            findRecordsByFilter_def emit_def)
    with None changed show ?thesis by simp
  next
    case (Some rs)
    from checkout_customer_table [OF auth Some] changed Some obtain cid where
      tab1: "tables ?s1 ''customer'' = Some (rs @ [customer_row (next_id s) cid u])"
      by auto
    have hit: "filter (\<lambda>r. row_fields r ''user_id'' = Some (JStr (user_id u)))
                 (rs @ [customer_row (next_id s) cid u]) \<noteq> []"
      by (simp add: customer_row_def)
    from checkout_customer_table [OF auth2 tab1] host hit
    show ?thesis
      using tab1 by (auto simp: host_filter_eq_def)
  qed
qed

theorem customer_records_never_updated_witness:
  "tables empty_store ''customer'' = Some []
   \<and> (\<exists>new. tables (snd (create_checkout_session (example_env shop_vendor) checkout_call
                            empty_store)) ''customer'' = Some ([] @ new) \<and> length new \<le> 1)
   \<and> tables (snd (create_checkout_session (example_env shop_vendor) checkout_call empty_store))
        ''customer'' \<noteq> tables empty_store ''customer''
   \<and> tables (snd (create_checkout_session (example_env shop_vendor) checkout_call
         (snd (create_checkout_session (example_env shop_vendor) checkout_call empty_store))))
        ''customer'' =
      tables (snd (create_checkout_session (example_env shop_vendor) checkout_call empty_store))
        ''customer''
   \<and> rows_with ''customer'' ''user_id'' (JStr (user_id ada)) known_customer_store \<noteq> []
   \<and> tables (snd (create_checkout_session (example_env shop_vendor) checkout_call
                     known_customer_store)) ''customer'' =
      tables known_customer_store ''customer''
   \<and> tables (snd (webhook (example_env shop_vendor) checkout_call known_customer_store))
        ''customer'' = tables known_customer_store ''customer''"
proof -
  let ?h = "example_env shop_vendor"
  let ?new = "create_checkout_session ?h checkout_call empty_store"
  have auth: "findAuthRecordByToken ?h (auth_token checkout_call) = Inr ada"
    by (simp add: example_env_def example_auth_def auth_token_def header_def js_or_def
          checkout_call_def ada_def)
  have host: "host_filter_eq ?h ''user_id'' (user_id ada)"
    by (simp add: host_filter_eq_def example_env_def example_filter_def eq_filter_def ada_def)
  have tab: "tables empty_store ''customer'' = Some []"
    by (simp add: empty_store_def)
  have changed: "tables (snd ?new) ''customer'' \<noteq> tables empty_store ''customer''"
    by (simp add: run_defs checkout_defs shop_vendor_def)
  have some: "rows_with ''customer'' ''user_id'' (JStr (user_id ada)) known_customer_store \<noteq> []"
    by (simp add: rows_with_def known_customer_store_def ada_def)
  note fresh = customer_records_never_updated
                 [where h = ?h and rq = checkout_call and ?rq2.0 = checkout_call
                    and s = empty_store and rs = "[]" and u = ada]
  note known = customer_records_never_updated
                 [where h = ?h and rq = checkout_call and ?rq2.0 = checkout_call
                    and s = known_customer_store and u = ada]
  from fresh tab have "\<exists>new. tables (snd ?new) ''customer'' = Some ([] @ new) \<and> length new \<le> 1"
    by blast
  moreover from fresh auth host changed
  have "tables (snd (create_checkout_session ?h checkout_call (snd ?new))) ''customer'' =
        tables (snd ?new) ''customer''"
    by blast
  moreover from known auth host some
  have "tables (snd (create_checkout_session ?h checkout_call known_customer_store)) ''customer'' =
        tables known_customer_store ''customer''"
    by blast
  moreover from known
  have "tables (snd (webhook ?h checkout_call known_customer_store)) ''customer'' =
        tables known_customer_store ''customer''"
    by blast
  ultimately show ?thesis
    using tab changed some by blast
qed

lemma checkout_customer_call_uncaught:
  assumes "findAuthRecordByToken h (auth_token rq) = Inr u"
    and "tables s ''customer'' = Some rs"
    and "filter_eval h (eq_filter ''user_id'' (user_id u)) = Some p"
    and "filter (\<lambda>r. p (row_fields r)) rs = []"
    and "http_send h (customer_request h u) = Inl e"
  shows "create_checkout_session h rq s =
           (Inl e, s\<lparr>trace := trace s @
              [DbFindAuth, DbFind ''customer'' (eq_filter ''user_id'' (user_id u)),
               HttpSend ''POST'' ''https://api.lemonsqueezy.com/v1/customers'']\<rparr>)"
  using assms
  by (simp add: checkout_authorized resolve_customer_def js_bind_def findRecordsByFilter_def
        emit_def send_run customer_request_trace lift_def)

lemma checkout_call_caught:
  assumes "http_send h (checkout_request h u v) = Inl e"
    and "get_prop (data rq) ''variant_id'' = Inr v"
  shows "forward_checkout h rq u s =
           (Inr \<lparr>code = 400, body = JObj [(''message'', JStr ''Failed to create checkout'')]\<rparr>,
            s\<lparr>trace := trace s @
               [HttpSend ''POST'' ''https://api.lemonsqueezy.com/v1/checkouts'', LogError]\<rparr>)"
  using assms
  by (simp add: forward_checkout_def js_bind_def try_catch_def send_run lift_def emit_def
        c_json_def ret_def checkout_request_def)

text \<open>
  Claim C4 says that every vendor or transport error during the checkout
  handler ends in the generic 400 response. The handler does so for the
  checkout call, which stands in a \<^verbatim>\<open>try\<close> (lines 207-224), but not for the
  customer-creation call of lines 131-157, which stands outside it. With a
  vendor that refuses the connection: for a user without a customer record the
  error leaves the handler as an exception, for a user with one the handler
  answers 400.
\<close>

theorem checkout_customer_call_error_propagates:
  "create_checkout_session (example_env no_vendor) checkout_call empty_store =
     (Inl (JErr ''Error'' ''connection refused''),
      empty_store\<lparr>trace := [DbFindAuth, DbFind ''customer'' (eq_filter ''user_id'' ''u1''),
                               HttpSend ''POST'' ''https://api.lemonsqueezy.com/v1/customers'']\<rparr>)
   \<and> create_checkout_session (example_env no_vendor) checkout_call known_customer_store =
     (Inr \<lparr>code = 400, body = JObj [(''message'', JStr ''Failed to create checkout'')]\<rparr>,
      known_customer_store\<lparr>trace := [DbFindAuth,
                               DbFind ''customer'' (eq_filter ''user_id'' ''u1''),
                               HttpSend ''POST'' ''https://api.lemonsqueezy.com/v1/checkouts'',
                               LogError]\<rparr>)"
  by (simp add: run_defs checkout_defs no_vendor_def known_customer_store_def)

end
